theory Spec2Isabelle
  imports Main
begin

section \<open>JavaScript values\<close>

text \<open>
  A JavaScript string is a sequence of UTF-16 code units; \<open>length\<close> counts code units
  and \<open>trim\<close> strips the code units of the ECMAScript white-space and line-terminator
  classes.  ASCII literals of the source are written \<open>js ''...''\<close>.
\<close>

type_synonym jsstring = "nat list"

definition js :: "string \<Rightarrow> jsstring" where
  "js s = map of_char s"

definition js_whitespace :: "nat \<Rightarrow> bool" where
  "js_whitespace c \<longleftrightarrow>
     c \<in> set [9, 10, 11, 12, 13, 32, 160, 5760, 8192, 8193, 8194, 8195, 8196, 8197,
              8198, 8199, 8200, 8201, 8202, 8232, 8233, 8239, 8287, 12288, 65279]"

definition trim :: "jsstring \<Rightarrow> jsstring" where
  "trim s = rev (dropWhile js_whitespace (rev (dropWhile js_whitespace s)))"

text \<open>\<open>!x\<close> on an optional string: \<open>undefined\<close> and the empty string are falsy.\<close>

definition falsy_str :: "jsstring option \<Rightarrow> bool" where
  "falsy_str x \<longleftrightarrow> (case x of None \<Rightarrow> True | Some s \<Rightarrow> s = [])"

text \<open>\<open>!x\<close> on an optional identifier: \<open>undefined\<close> and \<open>0\<close> are falsy.\<close>

definition falsy_id :: "nat option \<Rightarrow> bool" where
  "falsy_id x \<longleftrightarrow> (case x of None \<Rightarrow> True | Some n \<Rightarrow> n = 0)"


text \<open>The quotation mark and the line feed of the template literals.\<close>

definition dq :: jsstring where "dq = [34]"
definition nl :: jsstring where "nl = [10]"

text \<open>Decimal rendering of a number inside a template literal.\<close>

fun digits :: "nat \<Rightarrow> nat \<Rightarrow> jsstring" where
  "digits 0 n = []"
| "digits (Suc k) n = (if n < 10 then [48 + n] else digits k (n div 10) @ [48 + n mod 10])"

definition show_nat :: "nat \<Rightarrow> jsstring" where
  "show_nat n = digits (Suc n) n"

definition show_int :: "int \<Rightarrow> jsstring" where
  "show_int i = (if i < 0 then 45 # show_nat (nat (- i)) else show_nat (nat i))"

subsection \<open>Numbers and \<open>parseInt\<close>\<close>

text \<open>
  A member of a request body that a handler passes to \<open>parseInt\<close> is a JSON number or a
  JSON string; \<open>undefined\<close> and \<open>null\<close> are the absent member.  A number is zero, or
  infinite (\<open>JSON.parse\<close> gives \<open>Infinity\<close> for \<open>1e999\<close>), or finite: \<open>NFinite neg s n\<close> is
  the number of sign \<open>neg\<close> and magnitude \<open>s \<times> 10\<^sup>n\<^sup>-\<^sup>k\<close>, where \<open>k\<close> is the number of
  decimal digits of \<open>s\<close>; these are the integers \<open>s\<close>, \<open>k\<close> and \<open>n\<close> from which ECMAScript
  defines \<open>Number::toString\<close> (\<open>s\<close> is positive and does not end in 0).  So \<open>5\<close> is
  \<open>NFinite False 5 1\<close>, \<open>50\<close> is \<open>NFinite False 5 2\<close>, \<open>10.9\<close> is \<open>NFinite False 109 2\<close> and
  \<open>1e21\<close> is \<open>NFinite False 1 22\<close>.
\<close>

datatype jsnumber = NZero | NFinite bool nat int | NInfinite bool

datatype jsvalue = VNum jsnumber | VStr jsstring

text \<open>\<open>!x\<close> on such a member: \<open>undefined\<close>, \<open>null\<close>, \<open>0\<close> and the empty string are falsy.\<close>

definition falsy_value :: "jsvalue option \<Rightarrow> bool" where
  "falsy_value x \<longleftrightarrow>
     (case x of None \<Rightarrow> True | Some (VNum n) \<Rightarrow> n = NZero | Some (VStr s) \<Rightarrow> s = [])"

text \<open>\<open>Number::toString\<close> with radix 10, in the order of its steps.\<close>

definition exponent_part :: "int \<Rightarrow> jsstring" where
  "exponent_part e = (if e < 0 then js ''-'' else js ''+'') @ show_nat (nat \<bar>e\<bar>)"

definition number_to_string :: "jsnumber \<Rightarrow> jsstring" where
  "number_to_string x =
     (case x of
        NZero \<Rightarrow> js ''0''
      | NInfinite neg \<Rightarrow> (if neg then js ''-'' else []) @ js ''Infinity''
      | NFinite neg s n \<Rightarrow>
          (let ds = show_nat s; k = int (length ds) in
           (if neg then js ''-'' else []) @
           (if k \<le> n \<and> n \<le> 21 then ds @ replicate (nat (n - k)) 48
            else if 0 < n \<and> n \<le> 21 then take (nat n) ds @ js ''.'' @ drop (nat n) ds
            else if - 6 < n \<and> n \<le> 0 then js ''0.'' @ replicate (nat (- n)) 48 @ ds
            else if k = 1 then ds @ js ''e'' @ exponent_part (n - 1)
            else take 1 ds @ js ''.'' @ drop 1 ds @ js ''e'' @ exponent_part (n - 1))))"

definition to_string :: "jsvalue \<Rightarrow> jsstring" where
  "to_string v = (case v of VNum x \<Rightarrow> number_to_string x | VStr s \<Rightarrow> s)"

text \<open>
  \<open>parseInt\<close> without a radix: leading white space is skipped, a sign is read, the prefix
  \<open>0x\<close> or \<open>0X\<close> selects radix 16, and the longest run of digits of the radix is the
  result; \<open>None\<close> is \<open>NaN\<close>.  The result is the exact integer: the handlers only compare
  it with integers that a JavaScript number holds exactly.
\<close>

definition digit_value :: "nat \<Rightarrow> nat \<Rightarrow> nat option" where
  "digit_value R c =
     (let v = (if 48 \<le> c \<and> c \<le> 57 then Some (c - 48)
               else if 97 \<le> c \<and> c \<le> 122 then Some (c - 87)
               else if 65 \<le> c \<and> c \<le> 90 then Some (c - 55)
               else None)
      in case v of None \<Rightarrow> None | Some n \<Rightarrow> if n < R then Some n else None)"

fun radix_digits :: "nat \<Rightarrow> jsstring \<Rightarrow> nat list" where
  "radix_digits R [] = []"
| "radix_digits R (c # cs) =
     (case digit_value R c of None \<Rightarrow> [] | Some v \<Rightarrow> v # radix_digits R cs)"

definition radix_value :: "nat \<Rightarrow> nat list \<Rightarrow> nat" where
  "radix_value R Z = foldl (\<lambda>a v. a * R + v) 0 Z"

definition parse_int :: "jsstring \<Rightarrow> int option" where
  "parse_int inputString =
     (let S = dropWhile js_whitespace inputString;
          negative = (case S of [] \<Rightarrow> False | c # _ \<Rightarrow> c = 45);
          S = (case S of [] \<Rightarrow> [] | c # cs \<Rightarrow> if c = 43 \<or> c = 45 then cs else c # cs);
          hex = (case S of a # b # _ \<Rightarrow> a = 48 \<and> (b = 120 \<or> b = 88) | _ \<Rightarrow> False);
          S = (if hex then drop 2 S else S);
          R = (if hex then 16 else 10);
          Z = radix_digits R S
      in if Z = [] then None
         else Some ((if negative then - 1 else 1) * int (radix_value R Z)))"

definition parseInt :: "jsvalue \<Rightarrow> int option" where
  "parseInt v = parse_int (to_string v)"

text \<open>\<open>Array.prototype.join\<close> on strings.\<close>

fun join :: "jsstring \<Rightarrow> jsstring list \<Rightarrow> jsstring" where
  "join sep [] = []"
| "join sep [x] = x"
| "join sep (x # y # ys) = x @ sep @ join sep (y # ys)"

text \<open>\<open>String.prototype.replace\<close> with a one-character pattern: the first occurrence only.\<close>

fun replace_first :: "nat \<Rightarrow> jsstring \<Rightarrow> jsstring \<Rightarrow> jsstring" where
  "replace_first c by [] = []"
| "replace_first c by (x # xs) = (if x = c then by @ xs else x # replace_first c by xs)"

subsection \<open>JSON responses\<close>

datatype json =
    JNull
  | JBool bool
  | JNum int
  | JStr jsstring
  | JArr "json list"
  | JObj "(string \<times> json) list"

text \<open>\<open>res.status(code).json(body)\<close>: the status code and the members of the body in order.\<close>

record response =
  http_status :: nat
  body :: "(string \<times> json) list"

definition reply :: "nat \<Rightarrow> bool \<Rightarrow> jsstring \<Rightarrow> response" where
  "reply code ok msg =
     \<lparr>http_status = code, body = [(''success'', JBool ok), (''message'', JStr msg)]\<rparr>"


definition succeeded :: "response \<Rightarrow> bool" where
  "succeeded r \<longleftrightarrow> map_of (body r) ''success'' = Some (JBool True)"

text \<open>An optional member is left out by \<open>JSON.stringify\<close> when it is \<open>undefined\<close>.\<close>

definition opt_member :: "string \<Rightarrow> jsstring option \<Rightarrow> (string \<times> json) list" where
  "opt_member k v = (case v of None \<Rightarrow> [] | Some s \<Rightarrow> [(k, JStr s)])"

section \<open>The relational store\<close>

text \<open>
  Each table is the list of its rows in insertion order.  A \<open>SELECT\<close> is a list
  comprehension over the tables it joins, \<open>rows[0]\<close> is the head of its result, an
  \<open>UPDATE\<close> maps over the rows and a \<open>DELETE\<close> filters them.  The auto-increment
  counters that produce \<open>insertId\<close> are part of the store.
\<close>

datatype role = Student | Tutor

record user =
  u_user_id :: nat
  u_first_name :: jsstring
  u_last_name :: jsstring
  u_role :: role

record session =
  s_session_id :: nat
  s_tutor_id :: nat
  s_title :: jsstring
  s_start_time :: jsstring
  s_end_time :: jsstring
  s_session_type :: jsstring
  s_capacity :: int
  s_location_details :: "jsstring option"
  s_status :: jsstring

record attendee =
  sa_session_id :: nat
  sa_user_id :: nat

datatype request_status = Pending | Accepted | Denied

record join_request =
  sjr_request_id :: nat
  sjr_session_id :: nat
  sjr_requester_user_id :: nat
  sjr_tutor_user_id :: nat
  sjr_message_id :: nat
  sjr_status :: request_status
  sjr_responded_at :: "int option"

datatype message_type = Normal | Session_join_request

record message =
  m_message_id :: nat
  m_sender_id :: nat
  m_receiver_id :: nat
  m_subject :: jsstring
  m_message_type :: message_type
  m_message_content :: jsstring

datatype folder = Inbox | Sent | Draft | Trash

record user_message =
  um_user_id :: nat
  um_message_id :: nat
  um_folder :: folder
  um_is_read :: bool

record tutor_course =
  tc_tutor_user_id :: nat
  tc_course_id :: nat

record course =
  c_course_id :: nat
  c_course_title :: jsstring
  c_course_number :: jsstring
  c_department_id :: nat

record department =
  d_department_id :: nat
  d_code :: jsstring

record db =
  users :: "user list"
  sessions :: "session list"
  session_courses :: "(nat \<times> nat) list"
  session_attendees :: "attendee list"
  session_join_requests :: "join_request list"
  messages :: "message list"
  user_messages :: "user_message list"
  tutor_courses :: "tutor_course list"
  courses :: "course list"
  departments :: "department list"
  next_session_id :: nat
  next_request_id :: nat
  next_message_id :: nat

text \<open>
  What the handlers take from the host: the clock behind \<open>new Date()\<close> and
  \<open>CURRENT_TIMESTAMP\<close>, the \<open>Date\<close> constructor on a string (\<open>None\<close> is an invalid
  date), the two locale formatters applied to a stored start time, and the identifier
  that the database stores in an integer column when a statement binds a number or a
  string of a request body to it.
\<close>

record host =
  now :: int
  parse_date :: "jsstring \<Rightarrow> int option"
  format_date :: "jsstring \<Rightarrow> jsstring"
  format_time :: "jsstring \<Rightarrow> jsstring"
  column_int :: "jsvalue \<Rightarrow> nat"

subsection \<open>Statements that may be rejected\<close>

text \<open>
  Every \<open>await pool.query(...)\<close> either runs or rejects, and a rejection is caught by the
  handler's \<open>catch\<close>, which answers 500 on the store as it stands.  The gateway is given
  as the number of statements it still runs before it rejects one (\<open>None\<close>: it never
  rejects).
\<close>

type_synonym gateway = "nat option"

definition pool_query :: "'r \<Rightarrow> gateway \<Rightarrow> (gateway \<Rightarrow> 'r) \<Rightarrow> 'r" where
  "pool_query caught g k =
     (case g of None \<Rightarrow> k None | Some 0 \<Rightarrow> caught | Some (Suc n) \<Rightarrow> k (Some n))"

text \<open>A \<open>for ... of\<close> loop whose body awaits statements.\<close>

datatype progress = Thrown db | Finished gateway db

fun for_each :: "('a \<Rightarrow> gateway \<Rightarrow> db \<Rightarrow> progress) \<Rightarrow> 'a list \<Rightarrow> gateway \<Rightarrow> db \<Rightarrow> progress" where
  "for_each step [] g d = Finished g d"
| "for_each step (x # xs) g d =
     (case step x g d of Thrown d' \<Rightarrow> Thrown d' | Finished g' d' \<Rightarrow> for_each step xs g' d')"

subsection \<open>The statements the handlers share\<close>

definition enrolled_count :: "db \<Rightarrow> nat \<Rightarrow> int" where
  "enrolled_count d sid = int (length [a \<leftarrow> session_attendees d. sa_session_id a = sid])"

definition select_session :: "db \<Rightarrow> nat \<Rightarrow> session list" where
  "select_session d sid = [s \<leftarrow> sessions d. s_session_id s = sid]"

definition select_user :: "db \<Rightarrow> nat \<Rightarrow> user list" where
  "select_user d uid = [u \<leftarrow> users d. u_user_id u = uid]"

definition select_enrollment :: "db \<Rightarrow> nat \<Rightarrow> nat \<Rightarrow> attendee list" where
  "select_enrollment d sid uid =
     [a \<leftarrow> session_attendees d. sa_session_id a = sid \<and> sa_user_id a = uid]"

definition insert_message ::
  "nat \<Rightarrow> nat \<Rightarrow> jsstring \<Rightarrow> message_type \<Rightarrow> jsstring \<Rightarrow> db \<Rightarrow> nat \<times> db" where
  "insert_message sender receiver subject mtype content d =
     (next_message_id d,
      d\<lparr>messages := messages d @
           [\<lparr>m_message_id = next_message_id d, m_sender_id = sender, m_receiver_id = receiver,
             m_subject = subject, m_message_type = mtype, m_message_content = content\<rparr>],
        next_message_id := Suc (next_message_id d)\<rparr>)"

definition insert_user_message :: "nat \<Rightarrow> nat \<Rightarrow> folder \<Rightarrow> bool \<Rightarrow> db \<Rightarrow> db" where
  "insert_user_message uid mid fld rd d =
     d\<lparr>user_messages := user_messages d @
          [\<lparr>um_user_id = uid, um_message_id = mid, um_folder = fld, um_is_read = rd\<rparr>]\<rparr>"

definition set_request_status :: "nat \<Rightarrow> request_status \<Rightarrow> int \<Rightarrow> db \<Rightarrow> db" where
  "set_request_status rid st t d =
     d\<lparr>session_join_requests :=
          map (\<lambda>r. if sjr_request_id r = rid
                    then r\<lparr>sjr_status := st, sjr_responded_at := Some t\<rparr> else r)
              (session_join_requests d)\<rparr>"

definition downgrade_accepted :: "nat \<Rightarrow> nat \<Rightarrow> int \<Rightarrow> db \<Rightarrow> db" where
  "downgrade_accepted sid uid t d =
     d\<lparr>session_join_requests :=
          map (\<lambda>r. if sjr_session_id r = sid \<and> sjr_requester_user_id r = uid
                        \<and> sjr_status r = Accepted
                    then r\<lparr>sjr_status := Denied, sjr_responded_at := Some t\<rparr> else r)
              (session_join_requests d)\<rparr>"

definition delete_enrollment :: "nat \<Rightarrow> nat \<Rightarrow> db \<Rightarrow> db" where
  "delete_enrollment sid uid d =
     d\<lparr>session_attendees :=
          [a \<leftarrow> session_attendees d. \<not> (sa_session_id a = sid \<and> sa_user_id a = uid)]\<rparr>"

text \<open>\<open>x || 'TBD'\<close> on a nullable column: \<open>NULL\<close> and the empty string give the default.\<close>

definition or_default :: "jsstring option \<Rightarrow> jsstring \<Rightarrow> jsstring" where
  "or_default x dflt = (case x of None \<Rightarrow> dflt | Some s \<Rightarrow> if s = [] then dflt else s)"

definition full_name :: "user \<Rightarrow> jsstring" where
  "full_name u = u_first_name u @ js '' '' @ u_last_name u"


text \<open>
  The pictographs that open the lines of the notification bodies, as the code units of
  the source files.
\<close>

definition pic_books :: jsstring where "pic_books = [240, 376, 8220, 353]"
definition pic_calendar_mc :: jsstring where "pic_calendar_mc = [240, 376, 8220, 8230]"
definition pic_pin_mc :: jsstring where "pic_pin_mc = [240, 376, 8220]"
definition pic_people :: jsstring where "pic_people = [240, 376, 8216, 165]"
definition pic_speech :: jsstring where "pic_speech = [240, 376, 8217, 172]"
definition pic_party :: jsstring where "pic_party = [240, 376, 381, 8240]"
definition pic_clock_mc :: jsstring where "pic_clock_mc = [240, 376, 8226]"
definition pic_calendar :: jsstring where "pic_calendar = [55357, 56517]"
definition pic_clock :: jsstring where "pic_clock = [55357, 56656]"
definition pic_pin :: jsstring where "pic_pin = [55357, 56525]"

section \<open>Session controller: \<open>createSession\<close>\<close>

record create_session_body =
  title :: "jsstring option"
  sessionType :: "jsstring option"
  courseIds :: "nat list option"
  startTime :: "jsstring option"
  endTime :: "jsstring option"
  capacity :: "jsvalue option"
  locationDetails :: "jsstring option"

text \<open>
  The tutor's course rows among the requested identifiers, joined with their course and
  department: course id, title, number and department code.
\<close>

definition select_course_check ::
  "db \<Rightarrow> nat \<Rightarrow> nat list \<Rightarrow> (nat \<times> jsstring \<times> jsstring \<times> jsstring) list" where
  "select_course_check d uid ids =
     [(tc_course_id tc, c_course_title c, c_course_number c, d_code dp).
        tc \<leftarrow> tutor_courses d, tc_tutor_user_id tc = uid \<and> tc_course_id tc \<in> set ids,
        c \<leftarrow> courses d, c_course_id c = tc_course_id tc,
        dp \<leftarrow> departments d, d_department_id dp = c_department_id c]"

definition missing_required :: "create_session_body \<Rightarrow> bool" where
  "missing_required b \<longleftrightarrow>
     falsy_str (title b) \<or> falsy_str (sessionType b) \<or> courseIds b = None
     \<or> falsy_str (startTime b) \<or> falsy_str (endTime b) \<or> falsy_value (capacity b)"

definition createSession ::
  "host \<Rightarrow> gateway \<Rightarrow> nat option \<Rightarrow> create_session_body \<Rightarrow> db \<Rightarrow> response \<times> db" where
  "createSession h g userId b d =
    (if falsy_id userId then (reply 401 False (js ''Not authenticated''), d)
     else if missing_required b
     then (reply 400 False (js ''Missing required fields: title, sessionType, courseIds, startTime, endTime, and capacity are required''), d)
     else
       let uid = the userId;
           caught = (\<lambda>d. (reply 500 False (js ''Failed to create session''), d));
           ttl = the (title b); stype = the (sessionType b); ids = the (courseIds b);
           start = the (startTime b); end = the (endTime b)
       in
       if ids = [] then (reply 400 False (js ''At least one course must be selected''), d)
       else if length (trim ttl) > 150
       then (reply 400 False (js ''Session title must be 150 characters or less''), d)
       else if stype \<notin> set [js ''open'', js ''one_on_one'']
       then (reply 400 False (js ''Invalid session type. Must be '' @ dq @ js ''open'' @ dq
                                  @ js '' or '' @ dq @ js ''one_on_one'' @ dq), d)
       else pool_query (caught d) g (\<lambda>g.
         let tutorCheck = [u \<leftarrow> users d. u_user_id u = uid \<and> u_role u = Tutor] in
         if tutorCheck = [] then (reply 403 False (js ''Only tutors can create sessions''), d)
         else pool_query (caught d) g (\<lambda>g.
           let courseCheck = select_course_check d uid ids in
           if length courseCheck \<noteq> length ids
           then (reply 400 False (js ''One or more courses not found or you are not registered to tutor them''), d)
           else
             let startDate = parse_date h start; endDate = parse_date h end in
             if startDate = None \<or> endDate = None
             then (reply 400 False (js ''Invalid date/time format''), d)
             else if the startDate \<le> now h
             then (reply 400 False (js ''Session must be scheduled in the future''), d)
             else if the endDate \<le> the startDate
             then (reply 400 False (js ''End time must be after start time''), d)
             else
               let capacityNum = parseInt (the (capacity b)) in
               if capacityNum = None \<or> the capacityNum < 1 \<or> the capacityNum > 50
               then (reply 400 False (js ''Capacity must be between 1 and 50''), d)
               else
                 let finalCapacity =
                       (if stype = js ''one_on_one'' then 1 else the capacityNum) in
                 pool_query (caught d) g (\<lambda>g.
                   let sessionId = next_session_id d;
                       d = d\<lparr>sessions := sessions d @
                              [\<lparr>s_session_id = sessionId, s_tutor_id = uid, s_title = trim ttl,
                                s_start_time = replace_first 84 [32] start,
                                s_end_time = replace_first 84 [32] end,
                                s_session_type = stype, s_capacity = finalCapacity,
                                s_location_details =
                                  (if falsy_str (locationDetails b) then None
                                   else locationDetails b),
                                s_status = js ''scheduled''\<rparr>],
                            next_session_id := Suc sessionId\<rparr>
                   in
                   pool_query (caught d) g (\<lambda>g.
                     let d = d\<lparr>session_courses :=
                                  session_courses d @ map (\<lambda>courseId. (sessionId, courseId)) ids\<rparr>;
                         courseNames =
                           join (js '', '')
                             (map (\<lambda>(cid, ctitle, cnumber, dcode). dcode @ js '' '' @ cnumber)
                                  courseCheck)
                     in
                     (\<lparr>http_status = 201,
                       body = [(''success'', JBool True),
                               (''message'', JStr (js ''Session created successfully'')),
                               (''data'', JObj
                                  ([(''sessionId'', JNum (int sessionId)),
                                    (''title'', JStr (trim ttl)),
                                    (''sessionType'', JStr stype),
                                    (''courseIds'', JArr (map (\<lambda>c. JNum (int c)) ids)),
                                    (''courseNames'', JStr courseNames),
                                    (''startTime'', JStr start),
                                    (''endTime'', JStr end),
                                    (''capacity'', JNum finalCapacity)]
                                   @ opt_member ''locationDetails'' (locationDetails b)))]\<rparr>,
                      d))))))"


section \<open>Message controller: join requests\<close>

record join_request_body =
  sessionId :: "nat option"
  tutorId :: "jsvalue option"
  message :: "jsstring option"

text \<open>Either the handler has answered, or it goes on with the gateway and the store.\<close>

datatype flow = Answered "response \<times> db" | Continue gateway db

definition status_text :: "request_status \<Rightarrow> jsstring" where
  "status_text st =
     (case st of Pending \<Rightarrow> js ''pending'' | Accepted \<Rightarrow> js ''accepted'' | Denied \<Rightarrow> js ''denied'')"

definition name_or :: "user list \<Rightarrow> jsstring \<Rightarrow> jsstring" where
  "name_or rows dflt = (case rows of [] \<Rightarrow> dflt | u # _ \<Rightarrow> full_name u)"

text \<open>The subject and the body of the message that announces a join request.\<close>

definition request_subject :: "session \<Rightarrow> jsstring" where
  "request_subject session =
     (let sessionTitle = (if s_title session = [] then js ''Tutoring Session'' else s_title session)
      in js ''Session Request: '' @ sessionTitle)"

definition request_content :: "host \<Rightarrow> session \<Rightarrow> jsstring \<Rightarrow> jsstring option \<Rightarrow> jsstring" where
  "request_content h session studentName msg =
     (let formattedDate = format_date h (s_start_time session);
          formattedTime = format_time h (s_start_time session);
          stype = (if s_session_type session = js ''one_on_one''
                   then js ''One-on-One'' else js ''Group'');
          sessionTitle = (if s_title session = [] then js ''Tutoring Session'' else s_title session)
      in
      pic_books @ js '' Session Request: '' @ sessionTitle @ nl
      @ pic_calendar_mc @ js '' '' @ formattedDate @ js '' at '' @ formattedTime @ nl
      @ pic_pin_mc @ js '' '' @ or_default (s_location_details session) (js ''Location TBD'') @ nl
      @ pic_people @ js '' Type: '' @ stype @ nl @ nl
      @ studentName @ js '' would like to join this session.''
      @ (if \<not> falsy_str msg \<and> trim (the msg) \<noteq> []
         then nl @ nl @ pic_speech @ js '' Message from student:'' @ nl
              @ dq @ trim (the msg) @ dq
         else []))"

text \<open>
  The handler compares \<open>parseInt(tutorId)\<close> with the tutor of the session, and binds
  \<open>tutorId\<close> as it came to \<open>receiver_id\<close>, \<open>user_id\<close> and \<open>tutor_user_id\<close> in its inserts;
  \<open>tid\<close> is the identifier the database stores for it.
\<close>

definition sendSessionRequest ::
  "host \<Rightarrow> gateway \<Rightarrow> nat option \<Rightarrow> join_request_body \<Rightarrow> db \<Rightarrow> response \<times> db" where
  "sendSessionRequest h g userId b d =
    (if falsy_id userId
     then (reply 401 False (js ''You must be logged in to send a request''), d)
     else if falsy_id (sessionId b) \<or> falsy_value (tutorId b)
     then (reply 400 False (js ''Session ID and Tutor ID are required''), d)
     else
       let studentId = the userId; sid = the (sessionId b);
           tid = column_int h (the (tutorId b));
           caught = (\<lambda>d. (reply 500 False (js ''Failed to send request. Please try again.''), d))
       in
       pool_query (caught d) g (\<lambda>g.
         case select_session d sid of
           [] \<Rightarrow> (reply 404 False (js ''Session not found''), d)
         | session # _ \<Rightarrow>
             if parseInt (the (tutorId b)) \<noteq> Some (int (s_tutor_id session))
             then (reply 400 False (js ''Invalid tutor for this session''), d)
             else if studentId = s_tutor_id session
             then (reply 400 False (js ''You cannot request to join your own session''), d)
             else if enrolled_count d (s_session_id session) \<ge> s_capacity session
             then (reply 400 False (js ''This session is already full''), d)
             else pool_query (caught d) g (\<lambda>g.
               let existingRequests =
                     [r \<leftarrow> session_join_requests d.
                        sjr_session_id r = sid \<and> sjr_requester_user_id r = studentId]
               in
               case (case existingRequests of
                       [] \<Rightarrow> Continue g d
                     | r # _ \<Rightarrow>
                         if sjr_status r = Pending
                         then Answered (reply 400 False
                                (js ''You already have a pending request for this session''), d)
                         else if sjr_status r = Accepted
                         then Answered (reply 400 False
                                (js ''You are already enrolled in this session''), d)
                         else pool_query (Answered (caught d)) g (\<lambda>g.
                           Continue g
                             (d\<lparr>session_join_requests :=
                                  [r \<leftarrow> session_join_requests d.
                                     \<not> (sjr_session_id r = sid
                                        \<and> sjr_requester_user_id r = studentId)]\<rparr>)))
               of
                 Answered r \<Rightarrow> r
               | Continue g d \<Rightarrow>
                   pool_query (caught d) g (\<lambda>g.
                     if select_enrollment d sid studentId \<noteq> []
                     then (reply 400 False (js ''You are already enrolled in this session''), d)
                     else pool_query (caught d) g (\<lambda>g.
                       case select_user d studentId of
                         [] \<Rightarrow> (reply 404 False (js ''Student not found''), d)
                       | student # _ \<Rightarrow>
                           let studentName = full_name student;
                               messageSubject = request_subject session;
                               messageContent = request_content h session studentName (message b)
                           in
                           pool_query (caught d) g (\<lambda>g.
                             let (messageId, d) =
                                   insert_message studentId tid messageSubject
                                     Session_join_request messageContent d
                             in
                             pool_query (caught d) g (\<lambda>g.
                               let d = insert_user_message studentId messageId Sent True d in
                               pool_query (caught d) g (\<lambda>g.
                                 let d = insert_user_message tid messageId Inbox False d in
                                 pool_query (caught d) g (\<lambda>g.
                                   let d = d\<lparr>session_join_requests := session_join_requests d @
                                              [\<lparr>sjr_request_id = next_request_id d,
                                                sjr_session_id = sid,
                                                sjr_requester_user_id = studentId,
                                                sjr_tutor_user_id = tid,
                                                sjr_message_id = messageId,
                                                sjr_status = Pending,
                                                sjr_responded_at = None\<rparr>],
                                            next_request_id := Suc (next_request_id d)\<rparr>
                                   in
                                   (\<lparr>http_status = 201,
                                     body = [(''success'', JBool True),
                                             (''message'', JStr (js ''Your request has been sent to the tutor'')),
                                             (''messageId'', JNum (int messageId))]\<rparr>,
                                    d))))))))))"

text \<open>
  The request with its session and its requester: the join of \<open>acceptSessionRequest\<close>
  and \<open>denySessionRequest\<close>.
\<close>

definition select_request :: "db \<Rightarrow> nat \<Rightarrow> (join_request \<times> session \<times> user) list" where
  "select_request d rid =
     [(sjr, s, u).
        sjr \<leftarrow> session_join_requests d, sjr_request_id sjr = rid,
        s \<leftarrow> sessions d, s_session_id s = sjr_session_id sjr,
        u \<leftarrow> users d, u_user_id u = sjr_requester_user_id sjr]"

definition insert_attendee :: "nat \<Rightarrow> nat \<Rightarrow> db \<Rightarrow> db" where
  "insert_attendee sid uid d =
     d\<lparr>session_attendees := session_attendees d @ [\<lparr>sa_session_id = sid, sa_user_id = uid\<rparr>]\<rparr>"

definition accept_content :: "host \<Rightarrow> session \<Rightarrow> jsstring \<Rightarrow> jsstring" where
  "accept_content h session tutorName =
     (let formattedDate = format_date h (s_start_time session);
          formattedTime = format_time h (s_start_time session)
      in
      pic_party @ js '' Great news! Your request to join '' @ dq @ s_title session @ dq
      @ js '' has been accepted!'' @ nl @ nl
      @ pic_calendar_mc @ js '' Date: '' @ formattedDate @ nl
      @ pic_clock_mc @ js '' Time: '' @ formattedTime @ nl
      @ pic_pin_mc @ js '' Location: '' @ or_default (s_location_details session) (js ''TBD'')
      @ nl @ nl
      @ tutorName @ js '' is looking forward to seeing you at the session!'')"

definition acceptSessionRequest ::
  "host \<Rightarrow> gateway \<Rightarrow> nat option \<Rightarrow> nat option \<Rightarrow> db \<Rightarrow> response \<times> db" where
  "acceptSessionRequest h g userId rid d =
    (if falsy_id userId then (reply 401 False (js ''You must be logged in''), d)
     else case rid of
       None \<Rightarrow> (reply 400 False (js ''Invalid request ID''), d)
     | Some requestId \<Rightarrow>
       let tutor = the userId;
           caught = (\<lambda>d. (reply 500 False (js ''Failed to accept request. Please try again.''), d))
       in
       pool_query (caught d) g (\<lambda>g.
         case select_request d requestId of
           [] \<Rightarrow> (reply 404 False (js ''Request not found''), d)
         | (request, session, student) # _ \<Rightarrow>
             if sjr_tutor_user_id request \<noteq> tutor
             then (reply 403 False (js ''You are not authorized to accept this request''), d)
             else if sjr_status request \<noteq> Pending
             then (reply 400 False
                    (js ''This request has already been '' @ status_text (sjr_status request)), d)
             else if enrolled_count d (sjr_session_id request) \<ge> s_capacity session
             then (reply 400 False
                    (js ''This session is already full. Cannot accept more students.''), d)
             else pool_query (caught d) g (\<lambda>g.
               if select_enrollment d (sjr_session_id request) (u_user_id student) \<noteq> []
               then pool_query (caught d) g (\<lambda>g.
                 let d = set_request_status requestId Accepted (now h) d in
                 (reply 400 False (js ''Student is already enrolled in this session''), d))
               else pool_query (caught d) g (\<lambda>g.
                 let d = set_request_status requestId Accepted (now h) d in
                 pool_query (caught d) g (\<lambda>g.
                   let d = insert_attendee (sjr_session_id request) (u_user_id student) d in
                   pool_query (caught d) g (\<lambda>g.
                     let tutorName = name_or (select_user d tutor) (js ''Your tutor'');
                         acceptSubject = js ''Request Accepted: '' @ s_title session;
                         acceptContent = accept_content h session tutorName
                     in
                     pool_query (caught d) g (\<lambda>g.
                       let (messageId, d) =
                             insert_message tutor (u_user_id student) acceptSubject Normal
                               acceptContent d
                       in
                       pool_query (caught d) g (\<lambda>g.
                         let d = insert_user_message tutor messageId Sent True d in
                         pool_query (caught d) g (\<lambda>g.
                           let d = insert_user_message (u_user_id student) messageId Inbox False d
                           in
                           (reply 200 True
                              (full_name student @ js '' has been enrolled in the session''),
                            d))))))))))"

definition deny_content :: "session \<Rightarrow> jsstring option \<Rightarrow> jsstring" where
  "deny_content session reason =
     js ''Unfortunately, your request to join '' @ dq @ s_title session @ dq
     @ js '' was not accepted.'' @ nl @ nl
     @ (if \<not> falsy_str reason \<and> trim (the reason) \<noteq> []
        then pic_speech @ js '' Message from tutor:'' @ nl @ dq @ trim (the reason) @ dq @ nl @ nl
        else [])
     @ js ''Don'' @ [39] @ js ''t be discouraged! Feel free to browse other available sessions or try again later.''"

definition denySessionRequest ::
  "host \<Rightarrow> gateway \<Rightarrow> nat option \<Rightarrow> nat option \<Rightarrow> jsstring option \<Rightarrow> db \<Rightarrow> response \<times> db" where
  "denySessionRequest h g userId rid reason d =
    (if falsy_id userId then (reply 401 False (js ''You must be logged in''), d)
     else case rid of
       None \<Rightarrow> (reply 400 False (js ''Invalid request ID''), d)
     | Some requestId \<Rightarrow>
       let tutor = the userId;
           caught = (\<lambda>d. (reply 500 False (js ''Failed to deny request. Please try again.''), d))
       in
       pool_query (caught d) g (\<lambda>g.
         case select_request d requestId of
           [] \<Rightarrow> (reply 404 False (js ''Request not found''), d)
         | (request, session, student) # _ \<Rightarrow>
             if sjr_tutor_user_id request \<noteq> tutor
             then (reply 403 False (js ''You are not authorized to deny this request''), d)
             else if sjr_status request \<noteq> Pending
             then (reply 400 False
                    (js ''This request has already been '' @ status_text (sjr_status request)), d)
             else pool_query (caught d) g (\<lambda>g.
               let d = set_request_status requestId Denied (now h) d in
               pool_query (caught d) g (\<lambda>g.
                 let tutorName = name_or (select_user d tutor) (js ''The tutor'');
                     denySubject = js ''Request Update: '' @ s_title session;
                     denyContent = deny_content session reason
                 in
                 pool_query (caught d) g (\<lambda>g.
                   let (messageId, d) =
                         insert_message tutor (u_user_id student) denySubject Normal denyContent d
                   in
                   pool_query (caught d) g (\<lambda>g.
                     let d = insert_user_message tutor messageId Sent True d in
                     pool_query (caught d) g (\<lambda>g.
                       let d = insert_user_message (u_user_id student) messageId Inbox False d in
                       (reply 200 True
                          (js ''Request from '' @ full_name student @ js '' has been denied''),
                        d))))))))"


section \<open>Session controller: cancellation, removal and unenrolment\<close>

text \<open>The pending requests of a session joined with their requesters: request id, requester.\<close>

definition select_pending :: "db \<Rightarrow> nat \<Rightarrow> (nat \<times> nat) list" where
  "select_pending d sid =
     [(sjr_request_id sjr, sjr_requester_user_id sjr).
        sjr \<leftarrow> session_join_requests d, sjr_session_id sjr = sid \<and> sjr_status sjr = Pending,
        u \<leftarrow> users d, sjr_requester_user_id sjr = u_user_id u]"

text \<open>The attendees of a session joined with their user rows: user id.\<close>

definition select_enrolled :: "db \<Rightarrow> nat \<Rightarrow> nat list" where
  "select_enrolled d sid =
     [sa_user_id sa.
        sa \<leftarrow> session_attendees d, sa_session_id sa = sid,
        u \<leftarrow> users d, sa_user_id sa = u_user_id u]"

definition when_where :: "host \<Rightarrow> session \<Rightarrow> jsstring" where
  "when_where h session =
     pic_calendar @ js '' Date: '' @ format_date h (s_start_time session) @ nl
     @ pic_clock @ js '' Time: '' @ format_time h (s_start_time session) @ nl
     @ pic_pin @ js '' Location: '' @ or_default (s_location_details session) (js ''TBD'')
     @ nl @ nl"

definition cancelled_request_content :: "host \<Rightarrow> session \<Rightarrow> jsstring" where
  "cancelled_request_content h session =
     js ''Your request to join the session '' @ dq @ s_title session @ dq
     @ js '' has been automatically denied because the session has been cancelled.''
     @ nl @ nl @ when_where h session
     @ js ''We apologize for any inconvenience. Feel free to browse other available sessions on the platform.''"

definition cancelled_session_content :: "host \<Rightarrow> session \<Rightarrow> jsstring \<Rightarrow> jsstring" where
  "cancelled_session_content h session tutorName =
     js ''We regret to inform you that the session '' @ dq @ s_title session @ dq
     @ js '' has been cancelled by '' @ tutorName @ js ''.'' @ nl @ nl
     @ when_where h session
     @ js ''We apologize for any inconvenience this may cause. Please feel free to browse other available sessions on the platform.''"

definition deleted_message :: "nat \<Rightarrow> jsstring" where
  "deleted_message notifiedCount =
     js ''Session deleted successfully''
     @ (if notifiedCount > 0
        then js ''. '' @ show_nat notifiedCount @ js '' student''
             @ (if notifiedCount \<noteq> 1 then js ''s have'' else js '' has'')
             @ js '' been notified.''
        else [])"

definition removed_content :: "host \<Rightarrow> session \<Rightarrow> jsstring \<Rightarrow> jsstring" where
  "removed_content h session tutorName =
     js ''You have been removed from the session '' @ dq @ s_title session @ dq @ js ''.''
     @ nl @ nl @ when_where h session
     @ js ''If you have any questions about this change, please contact '' @ tutorName
     @ js ''.'' @ nl @ nl
     @ js ''Feel free to browse other available sessions on the platform.''"

definition unenrolled_content :: "host \<Rightarrow> session \<Rightarrow> jsstring \<Rightarrow> jsstring" where
  "unenrolled_content h session studentName =
     studentName @ js '' has unenrolled from your session '' @ dq @ s_title session @ dq
     @ js ''.'' @ nl @ nl @ when_where h session
     @ js ''A spot is now available in this session.''"

text \<open>The body of the first loop of \<open>deleteSession\<close>, over the pending requests.\<close>

definition deny_pending :: "host \<Rightarrow> nat \<Rightarrow> session \<Rightarrow> nat \<times> nat \<Rightarrow> gateway \<Rightarrow> db \<Rightarrow> progress" where
  "deny_pending h uid session request g d =
     (case request of (request_id, requester_user_id) \<Rightarrow>
      pool_query (Thrown d) g (\<lambda>g.
        let d = set_request_status request_id Denied (now h) d;
            messageSubject = js ''Session Cancelled: '' @ s_title session;
            messageContent = cancelled_request_content h session
        in
        pool_query (Thrown d) g (\<lambda>g.
          let (messageId, d) =
                insert_message uid requester_user_id messageSubject Normal messageContent d
          in
          pool_query (Thrown d) g (\<lambda>g.
            let d = insert_user_message uid messageId Sent True d in
            pool_query (Thrown d) g (\<lambda>g.
              let d = insert_user_message requester_user_id messageId Inbox False d in
              Finished g d)))))"

text \<open>The body of its second loop, over the enrolled students.\<close>

definition notify_enrolled :: "host \<Rightarrow> nat \<Rightarrow> session \<Rightarrow> jsstring \<Rightarrow> nat \<Rightarrow> gateway \<Rightarrow> db \<Rightarrow> progress" where
  "notify_enrolled h uid session tutorName student_user_id g d =
     (let messageSubject = js ''Session Cancelled: '' @ s_title session;
          messageContent = cancelled_session_content h session tutorName
      in
      pool_query (Thrown d) g (\<lambda>g.
        let (messageId, d) =
              insert_message uid student_user_id messageSubject Normal messageContent d
        in
        pool_query (Thrown d) g (\<lambda>g.
          let d = insert_user_message uid messageId Sent True d in
          pool_query (Thrown d) g (\<lambda>g.
            let d = insert_user_message student_user_id messageId Inbox False d in
            Finished g d))))"

definition deleteSession ::
  "host \<Rightarrow> gateway \<Rightarrow> nat option \<Rightarrow> nat \<Rightarrow> db \<Rightarrow> response \<times> db" where
  "deleteSession h g userId sid d =
    (if falsy_id userId then (reply 401 False (js ''Not authenticated''), d)
     else
       let uid = the userId;
           caught = (\<lambda>d. (reply 500 False (js ''Failed to delete session''), d))
       in
       pool_query (caught d) g (\<lambda>g.
         case select_session d sid of
           [] \<Rightarrow> (reply 404 False (js ''Session not found''), d)
         | session # _ \<Rightarrow>
             if s_tutor_id session \<noteq> uid
             then (reply 403 False (js ''You can only delete your own sessions''), d)
             else pool_query (caught d) g (\<lambda>g.
               let tutorName = name_or (select_user d uid) (js ''The tutor'') in
               pool_query (caught d) g (\<lambda>g.
                 let pendingRequests = select_pending d sid in
                 case for_each (deny_pending h uid session) pendingRequests g d of
                   Thrown d \<Rightarrow> caught d
                 | Finished g d \<Rightarrow>
                     pool_query (caught d) g (\<lambda>g.
                       let enrolledStudents = select_enrolled d sid in
                       case for_each (notify_enrolled h uid session tutorName) enrolledStudents g d of
                         Thrown d \<Rightarrow> caught d
                       | Finished g d \<Rightarrow>
                           pool_query (caught d) g (\<lambda>g.
                             let d = d\<lparr>session_courses :=
                                          [sc \<leftarrow> session_courses d. fst sc \<noteq> sid]\<rparr> in
                             pool_query (caught d) g (\<lambda>g.
                               let d = d\<lparr>session_attendees :=
                                            [sa \<leftarrow> session_attendees d. sa_session_id sa \<noteq> sid]\<rparr>
                               in
                               pool_query (caught d) g (\<lambda>g.
                                 let d = d\<lparr>session_join_requests :=
                                              [sjr \<leftarrow> session_join_requests d.
                                                 sjr_session_id sjr \<noteq> sid]\<rparr>
                                 in
                                 pool_query (caught d) g (\<lambda>g.
                                   let d = d\<lparr>sessions :=
                                                [s \<leftarrow> sessions d. s_session_id s \<noteq> sid]\<rparr>;
                                       notifiedCount =
                                         length pendingRequests + length enrolledStudents;
                                       successMessage = deleted_message notifiedCount
                                   in
                                   (reply 200 True successMessage, d))))))))))"

definition removeStudentFromSession ::
  "host \<Rightarrow> gateway \<Rightarrow> nat option \<Rightarrow> nat \<Rightarrow> nat \<Rightarrow> db \<Rightarrow> response \<times> db" where
  "removeStudentFromSession h g userId sid studentId d =
    (if falsy_id userId then (reply 401 False (js ''Not authenticated''), d)
     else
       let uid = the userId;
           caught = (\<lambda>d. (reply 500 False (js ''Failed to remove student from session''), d))
       in
       pool_query (caught d) g (\<lambda>g.
         case select_session d sid of
           [] \<Rightarrow> (reply 404 False (js ''Session not found''), d)
         | session # _ \<Rightarrow>
             if s_tutor_id session \<noteq> uid
             then (reply 403 False (js ''You are not authorized to modify this session''), d)
             else pool_query (caught d) g (\<lambda>g.
               case select_user d studentId of
                 [] \<Rightarrow> (reply 404 False (js ''Student not found''), d)
               | student # _ \<Rightarrow>
                   pool_query (caught d) g (\<lambda>g.
                     let affectedRows = length (select_enrollment d sid studentId);
                         d = delete_enrollment sid studentId d
                     in
                     if affectedRows = 0
                     then (reply 404 False (js ''Student not found in this session''), d)
                     else pool_query (caught d) g (\<lambda>g.
                       let d = downgrade_accepted sid studentId (now h) d in
                       pool_query (caught d) g (\<lambda>g.
                         let tutorName = name_or (select_user d uid) (js ''The tutor'');
                             messageSubject = js ''Session Update: '' @ s_title session;
                             messageContent = removed_content h session tutorName
                         in
                         pool_query (caught d) g (\<lambda>g.
                           let (messageId, d) =
                                 insert_message uid studentId messageSubject Normal messageContent d
                           in
                           pool_query (caught d) g (\<lambda>g.
                             let d = insert_user_message uid messageId Sent True d in
                             pool_query (caught d) g (\<lambda>g.
                               let d = insert_user_message studentId messageId Inbox False d in
                               (reply 200 True
                                  (full_name student
                                   @ js '' has been removed from the session and notified''),
                                d))))))))))"

text \<open>The session joined with its tutor's user row.\<close>

definition select_session_tutor :: "db \<Rightarrow> nat \<Rightarrow> (session \<times> user) list" where
  "select_session_tutor d sid =
     [(s, u). s \<leftarrow> sessions d, s_session_id s = sid, u \<leftarrow> users d, s_tutor_id s = u_user_id u]"

definition unenrollFromSession ::
  "host \<Rightarrow> gateway \<Rightarrow> nat option \<Rightarrow> nat \<Rightarrow> db \<Rightarrow> response \<times> db" where
  "unenrollFromSession h g userId sid d =
    (if falsy_id userId then (reply 401 False (js ''Not authenticated''), d)
     else
       let uid = the userId;
           caught = (\<lambda>d. (reply 500 False (js ''Failed to unenroll from session''), d))
       in
       pool_query (caught d) g (\<lambda>g.
         case select_session_tutor d sid of
           [] \<Rightarrow> (reply 404 False (js ''Session not found''), d)
         | (session, tutor) # _ \<Rightarrow>
             pool_query (caught d) g (\<lambda>g.
               if select_enrollment d sid uid = []
               then (reply 400 False (js ''You are not enrolled in this session''), d)
               else pool_query (caught d) g (\<lambda>g.
                 let d = delete_enrollment sid uid d in
                 pool_query (caught d) g (\<lambda>g.
                   let d = downgrade_accepted sid uid (now h) d in
                   pool_query (caught d) g (\<lambda>g.
                     let studentName = name_or (select_user d uid) (js ''A student'');
                         messageSubject = js ''Student Unenrolled: '' @ s_title session;
                         messageContent = unenrolled_content h session studentName
                     in
                     pool_query (caught d) g (\<lambda>g.
                       let (messageId, d) =
                             insert_message uid (s_tutor_id session) messageSubject Normal
                               messageContent d
                       in
                       pool_query (caught d) g (\<lambda>g.
                         let d = insert_user_message uid messageId Sent True d in
                         pool_query (caught d) g (\<lambda>g.
                           let d = insert_user_message (s_tutor_id session) messageId Inbox False d
                           in
                           (reply 200 True (js ''Successfully unenrolled from the session''),
                            d))))))))))"


section \<open>Properties and example stores\<close>

text \<open>\<open>holds P x\<close> is \<open>P x\<close>, kept folded while a handler is followed branch by branch.\<close>

definition holds :: "('a \<Rightarrow> bool) \<Rightarrow> 'a \<Rightarrow> bool" where
  "holds P x = P x"

text \<open>A failure envelope other than the 500 of the \<open>catch\<close> block.\<close>

definition rejected :: "response \<Rightarrow> bool" where
  "rejected r \<longleftrightarrow> \<not> succeeded r \<and> http_status r \<noteq> 500"

text \<open>
  A small store: tutor 10 teaches course 7 and owns session 5 of capacity 2; users 20 and
  30 are students.  The join requests and the enrolled students are parameters.  The
  database of the example host stores the number 10.9 as 11, as MySQL rounds a number
  bound to an integer column, and anything else as the integer that \<open>parseInt\<close> reads
  from it.
\<close>

definition ex_host :: host where
  "ex_host = \<lparr>now = 1000,
      parse_date = (\<lambda>s. if s = js ''2030-01-01T10:00:00'' then Some 2000
                         else if s = js ''2030-01-01T11:00:00'' then Some 3000 else None),
      format_date = (\<lambda>s. js ''Tuesday, January 1, 2030''),
      format_time = (\<lambda>s. js ''10:00 AM''),
      column_int = (\<lambda>v. if v = VNum (NFinite False 109 2) then 11
                         else case parseInt v of None \<Rightarrow> 0 | Some i \<Rightarrow> nat i)\<rparr>"

text \<open>The number 10 as a member of a request body.\<close>

definition ex_ten :: jsvalue where
  "ex_ten = VNum (NFinite False 1 2)"


definition ex_user :: "nat \<Rightarrow> role \<Rightarrow> user" where
  "ex_user i r = \<lparr>u_user_id = i, u_first_name = js ''A'', u_last_name = js ''B'', u_role = r\<rparr>"

definition ex_session :: session where
  "ex_session = \<lparr>s_session_id = 5, s_tutor_id = 10, s_title = js ''Algebra'',
      s_start_time = js ''2030-01-01 10:00:00'', s_end_time = js ''2030-01-01 11:00:00'',
      s_session_type = js ''open'', s_capacity = 2, s_location_details = None,
      s_status = js ''scheduled''\<rparr>"

definition ex_request :: "nat \<Rightarrow> nat \<Rightarrow> request_status \<Rightarrow> join_request" where
  "ex_request i student st = \<lparr>sjr_request_id = i, sjr_session_id = 5,
      sjr_requester_user_id = student, sjr_tutor_user_id = 10, sjr_message_id = i,
      sjr_status = st, sjr_responded_at = None\<rparr>"

definition ex_db :: "join_request list \<Rightarrow> nat list \<Rightarrow> db" where
  "ex_db requests enrolled =
     \<lparr>users = [ex_user 10 Tutor, ex_user 20 Student, ex_user 30 Student],
      sessions = [ex_session],
      session_courses = [(5, 7)],
      session_attendees = map (\<lambda>u. \<lparr>sa_session_id = 5, sa_user_id = u\<rparr>) enrolled,
      session_join_requests = requests,
      messages = [], user_messages = [],
      tutor_courses = [\<lparr>tc_tutor_user_id = 10, tc_course_id = 7\<rparr>],
      courses = [\<lparr>c_course_id = 7, c_course_title = js ''Intro'', c_course_number = js ''101'',
                  c_department_id = 3\<rparr>],
      departments = [\<lparr>d_department_id = 3, d_code = js ''CSC''\<rparr>],
      next_session_id = 6, next_request_id = 50, next_message_id = 60\<rparr>"

text \<open>The store a loop has reached, whether it threw or finished.\<close>

definition state_of :: "progress \<Rightarrow> db" where
  "state_of p = (case p of Thrown d \<Rightarrow> d | Finished g d \<Rightarrow> d)"

text \<open>The store after all four statements of one round of the first loop of \<open>deleteSession\<close>.\<close>

definition deny_pending_done :: "host \<Rightarrow> nat \<Rightarrow> session \<Rightarrow> nat \<times> nat \<Rightarrow> db \<Rightarrow> db" where
  "deny_pending_done h uid session request d =
     insert_user_message (snd request) (next_message_id d) Inbox False
       (insert_user_message uid (next_message_id d) Sent True
         (snd (insert_message uid (snd request) (js ''Session Cancelled: '' @ s_title session)
                 Normal (cancelled_request_content h session)
                 (set_request_status (fst request) Denied (now h) d))))"

text \<open>The store after all three statements of one round of its second loop.\<close>

definition notify_enrolled_done :: "host \<Rightarrow> nat \<Rightarrow> session \<Rightarrow> jsstring \<Rightarrow> nat \<Rightarrow> db \<Rightarrow> db" where
  "notify_enrolled_done h uid session tutorName student d =
     insert_user_message student (next_message_id d) Inbox False
       (insert_user_message uid (next_message_id d) Sent True
         (snd (insert_message uid student (js ''Session Cancelled: '' @ s_title session)
                 Normal (cancelled_session_content h session tutorName) d)))"

text \<open>The two \<open>user_messages\<close> rows that file a message: read in the sender's sent folder,
  unread in the receiver's inbox.\<close>

definition copies :: "message \<Rightarrow> user_message list" where
  "copies m =
     [\<lparr>um_user_id = m_sender_id m, um_message_id = m_message_id m, um_folder = Sent,
       um_is_read = True\<rparr>,
      \<lparr>um_user_id = m_receiver_id m, um_message_id = m_message_id m, um_folder = Inbox,
       um_is_read = False\<rparr>]"

text \<open>From \<open>d\<close> to \<open>d'\<close> exactly one message per listed receiver was inserted, all from the
  one sender, each with its two copies, and nothing else was written to the two tables.\<close>

definition delivered :: "nat \<Rightarrow> nat list \<Rightarrow> db \<Rightarrow> db \<Rightarrow> bool" where
  "delivered sender receivers d d' \<longleftrightarrow>
     (\<exists>ms. map m_receiver_id ms = receivers \<and> map m_sender_id ms = map (\<lambda>_. sender) receivers \<and>
           messages d' = messages d @ ms \<and>
           user_messages d' = user_messages d @ concat (map copies ms))"

text \<open>No row of a session, course association, enrolment or join request was deleted
  between \<open>d\<close> and \<open>d'\<close>.\<close>

definition undeleted :: "db \<Rightarrow> db \<Rightarrow> bool" where
  "undeleted d d' \<longleftrightarrow>
     sessions d' = sessions d \<and> session_courses d' = session_courses d \<and>
     session_attendees d' = session_attendees d \<and>
     map (\<lambda>q. (sjr_request_id q, sjr_session_id q, sjr_requester_user_id q))
         (session_join_requests d') =
     map (\<lambda>q. (sjr_request_id q, sjr_session_id q, sjr_requester_user_id q))
         (session_join_requests d)"

text \<open>What the two loops of \<open>deleteSession\<close> never write.\<close>

definition untouched :: "db \<Rightarrow> db \<Rightarrow> bool" where
  "untouched d d' \<longleftrightarrow> undeleted d d' \<and> users d' = users d"

text \<open>The store on which \<open>deleteSession\<close> issues its first \<open>DELETE\<close>.\<close>

definition cancelled_state :: "host \<Rightarrow> nat \<Rightarrow> session \<Rightarrow> nat \<Rightarrow> db \<Rightarrow> db" where
  "cancelled_state h uid session sid d =
     fold (notify_enrolled_done h uid session (name_or (select_user d uid) (js ''The tutor'')))
          (select_enrolled d sid)
          (fold (deny_pending_done h uid session) (select_pending d sid) d)"

text \<open>Between \<open>d\<close> and \<open>d'\<close> the two message tables only grew, and every \<open>user_messages\<close>
  row written is one of the two copies of a message written in between.\<close>

definition filing :: "db \<Rightarrow> db \<Rightarrow> bool" where
  "filing d d' \<longleftrightarrow>
     (\<exists>ms ums. messages d' = messages d @ ms \<and> user_messages d' = user_messages d @ ums \<and>
        list_all (\<lambda>um. list_ex (\<lambda>m. um \<in> set (copies m)) ms) ums)"

text \<open>A valid payload for \<open>createSession\<close> on the example store.\<close>

definition ex_body :: create_session_body where
  "ex_body = \<lparr>title = Some (js ''Algebra''), sessionType = Some (js ''one_on_one''),
      courseIds = Some [7], startTime = Some (js ''2030-01-01T10:00:00''),
      endTime = Some (js ''2030-01-01T11:00:00''),
      capacity = Some (VNum (NFinite False 5 1)), locationDetails = Some (js ''Library'')\<rparr>"





text \<open>
  The calls that touch enrolment, with the caller and the arguments of the handler that
  serves each, and runs of such calls, each under its own gateway.
\<close>

datatype operation =
    CreateRequest "nat option" join_request_body
  | Accept "nat option" "nat option"
  | Deny "nat option" "nat option" "jsstring option"
  | Unenroll "nat option" nat
  | RemoveStudent "nat option" nat nat
  | DeleteSession "nat option" nat

definition perform :: "host \<Rightarrow> gateway \<Rightarrow> operation \<Rightarrow> db \<Rightarrow> response \<times> db" where
  "perform h g c d =
     (case c of
        CreateRequest userId b \<Rightarrow> sendSessionRequest h g userId b d
      | Accept userId rid \<Rightarrow> acceptSessionRequest h g userId rid d
      | Deny userId rid reason \<Rightarrow> denySessionRequest h g userId rid reason d
      | Unenroll userId sid \<Rightarrow> unenrollFromSession h g userId sid d
      | RemoveStudent userId sid studentId \<Rightarrow> removeStudentFromSession h g userId sid studentId d
      | DeleteSession userId sid \<Rightarrow> deleteSession h g userId sid d)"

fun run :: "host \<Rightarrow> (gateway \<times> operation) list \<Rightarrow> db \<Rightarrow> db" where
  "run h [] d = d"
| "run h ((g, c) # calls) d = run h calls (snd (perform h g c d))"

text \<open>The session with this identifier has no more \<open>session_attendees\<close> rows than its
  capacity.\<close>

definition within_capacity :: "db \<Rightarrow> nat \<Rightarrow> bool" where
  "within_capacity d sid \<longleftrightarrow>
     list_all (\<lambda>s. s_session_id s = sid \<longrightarrow> enrolled_count d sid \<le> s_capacity s) (sessions d)"

text \<open>
  What one call may do to \<open>sessions\<close> and \<open>session_attendees\<close>: delete rows, or append one
  enrolment to a session that has room for it.
\<close>

definition capacity_step :: "db \<Rightarrow> db \<Rightarrow> bool" where
  "capacity_step d d' \<longleftrightarrow>
     (\<exists>P Q. sessions d' = filter Q (sessions d) \<and>
            session_attendees d' = filter P (session_attendees d)) \<or>
     (\<exists>a s. sessions d' = sessions d \<and> session_attendees d' = session_attendees d @ [a] \<and>
            s \<in> set (sessions d) \<and> s_session_id s = sa_session_id a \<and>
            enrolled_count d (sa_session_id a) < s_capacity s)"

section \<open>Rules for following a handler\<close>

lemma pool_query_None [simp]: "pool_query c None k = k None"
  by (simp add: pool_query_def)

lemma pool_query_const: "g \<noteq> Some 0 \<Longrightarrow> pool_query c g (\<lambda>_. a) = a"
  by (simp add: pool_query_def split: option.splits nat.splits)

lemma succeeded_reply [simp]: "succeeded (reply c ok m) = ok"
  by (simp add: succeeded_def reply_def)

lemma http_status_reply [simp]: "http_status (reply c ok m) = c"
  by (simp add: reply_def)

lemma holds_pool_query: "holds P c \<Longrightarrow> (\<And>g'. holds P (k g')) \<Longrightarrow> holds P (pool_query c g k)"
  by (simp add: pool_query_def holds_def split: option.splits nat.splits)

lemma holds_if: "(b \<Longrightarrow> holds P x) \<Longrightarrow> (\<not> b \<Longrightarrow> holds P y) \<Longrightarrow> holds P (if b then x else y)"
  by (simp add: holds_def)

lemma holds_list: "(l = [] \<Longrightarrow> holds P a) \<Longrightarrow> (\<And>x xs. l = x # xs \<Longrightarrow> holds P (f x xs))
    \<Longrightarrow> holds P (case l of [] \<Rightarrow> a | x # xs \<Rightarrow> f x xs)"
  by (simp add: holds_def split: list.splits)

lemma holds_option: "(v = None \<Longrightarrow> holds P a) \<Longrightarrow> (\<And>x. v = Some x \<Longrightarrow> holds P (f x))
    \<Longrightarrow> holds P (case v of None \<Rightarrow> a | Some x \<Rightarrow> f x)"
  by (simp add: holds_def split: option.splits)

lemma holds_prod: "(\<And>a b. p = (a, b) \<Longrightarrow> holds P (f a b)) \<Longrightarrow> holds P (case p of (a, b) \<Rightarrow> f a b)"
  by (simp add: holds_def split: prod.splits)

lemma holds_flow: "holds (\<lambda>fl. holds P (case fl of Answered r \<Rightarrow> f1 r | Continue g d \<Rightarrow> f2 g d)) x
   \<Longrightarrow> holds P (case x of Answered r \<Rightarrow> f1 r | Continue g d \<Rightarrow> f2 g d)"
  by (simp add: holds_def)

lemma holds_Answered: "holds P (f1 r) \<Longrightarrow> holds (\<lambda>fl. holds P (case fl of Answered r \<Rightarrow> f1 r | Continue g d \<Rightarrow> f2 g d)) (Answered r)"
  by (simp add: holds_def)

lemma holds_Continue: "holds P (f2 g d) \<Longrightarrow> holds (\<lambda>fl. holds P (case fl of Answered r \<Rightarrow> f1 r | Continue g d \<Rightarrow> f2 g d)) (Continue g d)"
  by (simp add: holds_def)

lemma holds_progress: "(\<And>d'. x = Thrown d' \<Longrightarrow> holds P (f1 d')) \<Longrightarrow> (\<And>g' d'. x = Finished g' d' \<Longrightarrow> holds P (f2 g' d'))
   \<Longrightarrow> holds P (case x of Thrown d \<Rightarrow> f1 d | Finished g d \<Rightarrow> f2 g d)"
  by (simp add: holds_def split: progress.splits)

lemmas holds_intros = holds_pool_query holds_if holds_list holds_option holds_prod holds_flow holds_Answered holds_Continue
  holds_progress

lemmas prims = set_request_status_def insert_attendee_def insert_message_def insert_user_message_def
  downgrade_accepted_def delete_enrollment_def

lemma select_request_hd:
  "select_request d rid = (r, s, u) # x \<Longrightarrow>
     r \<in> set (session_join_requests d) \<and> sjr_request_id r = rid \<and>
     s \<in> set (sessions d) \<and> s_session_id s = sjr_session_id r \<and>
     u \<in> set (users d) \<and> u_user_id u = sjr_requester_user_id r"
proof -
  assume "select_request d rid = (r, s, u) # x"
  then have "(r, s, u) \<in> set (select_request d rid)" by simp
  then show ?thesis by (auto simp: select_request_def)
qed

lemma deny_success:
  "holds (\<lambda>x. succeeded (fst x) \<longrightarrow>
      (\<exists>tutor requestId request session student rest.
         userId = Some tutor \<and> rid = Some requestId \<and>
         select_request d requestId = (request, session, student) # rest \<and>
         sjr_tutor_user_id request = tutor \<and> sjr_status request = Pending \<and>
         x = (reply 200 True (js ''Request from '' @ full_name student @ js '' has been denied''),
              insert_user_message (u_user_id student) (next_message_id d) Inbox False
               (insert_user_message tutor (next_message_id d) Sent True
                 (snd (insert_message tutor (u_user_id student)
                        (js ''Request Update: '' @ s_title session) Normal
                        (deny_content session reason)
                        (set_request_status requestId Denied (now h) d)))))))
     (denySessionRequest h g userId rid reason d)"
  unfolding denySessionRequest_def Let_def
  apply (intro holds_intros)
  apply (simp_all add: holds_def)
  apply (auto simp: prims falsy_id_def split: option.splits)
  done

lemma trim_Nil [simp]: "trim [] = []"
  by (simp add: trim_def)


subsection \<open>The example store\<close>


lemma ex_db_fields:
  "users (ex_db rs en) = [ex_user 10 Tutor, ex_user 20 Student, ex_user 30 Student]"
  "sessions (ex_db rs en) = [ex_session]"
  "session_courses (ex_db rs en) = [(5, 7)]"
  "session_attendees (ex_db rs en) = map (\<lambda>u. \<lparr>sa_session_id = 5, sa_user_id = u\<rparr>) en"
  "session_join_requests (ex_db rs en) = rs"
  "messages (ex_db rs en) = []"
  "user_messages (ex_db rs en) = []"
  "next_message_id (ex_db rs en) = 60"
  "next_request_id (ex_db rs en) = 50"
  by (simp_all add: ex_db_def)

lemma ex_request_fields:
  "sjr_request_id (ex_request i u st) = i"
  "sjr_session_id (ex_request i u st) = 5"
  "sjr_requester_user_id (ex_request i u st) = u"
  "sjr_tutor_user_id (ex_request i u st) = 10"
  "sjr_message_id (ex_request i u st) = i"
  "sjr_status (ex_request i u st) = st"
  "sjr_responded_at (ex_request i u st) = None"
  by (simp_all add: ex_request_def)

lemma ex_session_fields:
  "s_session_id ex_session = 5" "s_tutor_id ex_session = 10" "s_capacity ex_session = 2"
  by (simp_all add: ex_session_def)

lemma ex_user_fields: "u_user_id (ex_user i r) = i" "u_role (ex_user i r) = r"
  by (simp_all add: ex_user_def)

lemmas parse_defs = parseInt_def to_string_def number_to_string_def exponent_part_def
  show_nat_def parse_int_def js_whitespace_def digit_value_def radix_value_def js_def

lemma falsy_value_None [simp]: "falsy_value None"
  by (simp add: falsy_value_def)

lemma truthy_value: "\<not> falsy_value x \<Longrightarrow> \<exists>v. x = Some v"
  by (cases x) simp_all

lemma falsy_value_parseInt:
  "falsy_value (Some v) \<Longrightarrow> parseInt v = None \<or> parseInt v = Some 0"
  by (cases v) (auto simp: falsy_value_def parse_defs)

lemma digits_numeral [simp]:
  "digits (numeral k) n =
     (if n < 10 then [48 + n] else digits (pred_numeral k) (n div 10) @ [48 + n mod 10])"
  by (simp add: numeral_eq_Suc)

lemma ex_ten_fields:
  "parseInt ex_ten = Some 10" "column_int ex_host ex_ten = 10" "\<not> falsy_value (Some ex_ten)"
  by (simp_all add: ex_ten_def ex_host_def falsy_value_def parse_defs)

lemmas ex_fields = ex_db_fields ex_request_fields ex_session_fields ex_user_fields
  ex_ten_fields

lemma ex_select_request:
  "select_request (ex_db [ex_request 40 20 st] en) 40 =
     [(ex_request 40 20 st, ex_session, ex_user 20 Student)]"
  by (simp add: select_request_def ex_fields)

lemma ex_select_session: "select_session (ex_db rs en) 5 = [ex_session]"
  by (simp add: select_session_def ex_fields)


section \<open>Denying a request\<close>



lemma select_session_tutor_hd:
  "select_session_tutor d sid = (s, u) # x \<Longrightarrow>
     s \<in> set (sessions d) \<and> s_session_id s = sid \<and> u \<in> set (users d) \<and> s_tutor_id s = u_user_id u"
proof -
  assume "select_session_tutor d sid = (s, u) # x"
  then have "(s, u) \<in> set (select_session_tutor d sid)" by simp
  then show ?thesis by (auto simp: select_session_tutor_def)
qed

lemma unenroll_success:
  "holds (\<lambda>x. succeeded (fst x) \<longrightarrow>
      (\<exists>uid session tutor rest.
         userId = Some uid \<and> select_session_tutor d sid = (session, tutor) # rest \<and>
         select_enrollment d sid uid \<noteq> [] \<and>
         x = (reply 200 True (js ''Successfully unenrolled from the session''),
              insert_user_message (s_tutor_id session) (next_message_id d) Inbox False
               (insert_user_message uid (next_message_id d) Sent True
                 (snd (insert_message uid (s_tutor_id session)
                        (js ''Student Unenrolled: '' @ s_title session) Normal
                        (unenrolled_content h session
                           (name_or (select_user d uid) (js ''A student'')))
                        (downgrade_accepted sid uid (now h) (delete_enrollment sid uid d))))))))
     (unenrollFromSession h g userId sid d)"
  unfolding unenrollFromSession_def Let_def
  apply (intro holds_intros)
  apply (simp_all add: holds_def)
  apply (auto simp: prims falsy_id_def select_user_def split: option.splits)
  done


section \<open>Unenrolling\<close>



section \<open>Accepting a request: first checks and success\<close>

lemma accept_success:
  "holds (\<lambda>x. succeeded (fst x) \<longrightarrow>
      (\<exists>tutor requestId request session student rest.
         userId = Some tutor \<and> rid = Some requestId \<and>
         select_request d requestId = (request, session, student) # rest \<and>
         sjr_tutor_user_id request = tutor \<and> sjr_status request = Pending \<and>
         enrolled_count d (sjr_session_id request) < s_capacity session \<and>
         select_enrollment d (sjr_session_id request) (u_user_id student) = [] \<and>
         x = (reply 200 True (full_name student @ js '' has been enrolled in the session''),
              insert_user_message (u_user_id student) (next_message_id d) Inbox False
               (insert_user_message tutor (next_message_id d) Sent True
                 (snd (insert_message tutor (u_user_id student)
                        (js ''Request Accepted: '' @ s_title session) Normal
                        (accept_content h session
                           (name_or (select_user d tutor) (js ''Your tutor'')))
                        (insert_attendee (sjr_session_id request) (u_user_id student)
                           (set_request_status requestId Accepted (now h) d))))))))
     (acceptSessionRequest h g userId rid d)"
  unfolding acceptSessionRequest_def Let_def
  apply (intro holds_intros)
  apply (simp_all add: holds_def)
  apply (auto simp: prims falsy_id_def select_user_def split: option.splits)
  done

lemma accept_first_checks:
  assumes "userId = Some tutor" "tutor \<noteq> 0" "g \<noteq> Some 0"
    and "select_request d requestId = (request, session, student) # rest"
  shows "(sjr_tutor_user_id request \<noteq> tutor \<longrightarrow>
            acceptSessionRequest h g userId (Some requestId) d =
              (reply 403 False (js ''You are not authorized to accept this request''), d)) \<and>
         (sjr_tutor_user_id request = tutor \<and> sjr_status request \<noteq> Pending \<longrightarrow>
            acceptSessionRequest h g userId (Some requestId) d =
              (reply 400 False (js ''This request has already been ''
                                  @ status_text (sjr_status request)), d)) \<and>
         (sjr_tutor_user_id request = tutor \<and> sjr_status request = Pending \<and>
          enrolled_count d (sjr_session_id request) \<ge> s_capacity session \<longrightarrow>
            acceptSessionRequest h g userId (Some requestId) d =
              (reply 400 False
                 (js ''This session is already full. Cannot accept more students.''), d))"
  using assms
  by (simp add: acceptSessionRequest_def falsy_id_def Let_def pool_query_const)

section \<open>Cancelling a session\<close>

subsection \<open>Loops\<close>

lemma for_each_None:
  assumes "\<And>x d. step x None d = Finished None (eff x d)"
  shows "for_each step xs None d = Finished None (fold eff xs d)"
  by (induction xs arbitrary: d) (simp_all add: assms)

lemma for_each_Some:
  assumes "\<And>x d n. step x (Some (c + n)) d = Finished (Some n) (eff x d)"
  shows "for_each step xs (Some (c * length xs + n)) d = Finished (Some n) (fold eff xs d)"
proof (induction xs arbitrary: d)
  case Nil
  show ?case by simp
next
  case (Cons x xs)
  have e: "c * length (x # xs) + n = c + (c * length xs + n)" by simp
  show ?case unfolding e using Cons assms [of x "c * length xs + n" d] by simp
qed

lemma for_each_Finished:
  assumes "\<And>x g d g' d'. step x g d = Finished g' d' \<Longrightarrow> d' = eff x d"
  shows "for_each step xs g d = Finished g' d' \<Longrightarrow> d' = fold eff xs d"
proof (induction xs arbitrary: g d)
  case Nil
  then show ?case by simp
next
  case (Cons x xs)
  then show ?case
    by (cases "step x g d") (auto dest: assms)
qed

lemma for_each_frame:
  assumes "\<And>x g d. f (state_of (step x g d)) = f d"
  shows "f (state_of (for_each step xs g d)) = f d"
proof (induction xs arbitrary: g d)
  case Nil
  show ?case by (simp add: state_of_def)
next
  case (Cons x xs)
  show ?case
  proof (cases "step x g d")
    case (Thrown d')
    with assms [of x g d] show ?thesis by (simp add: state_of_def)
  next
    case (Finished g' d')
    with assms [of x g d] Cons [of g' d'] show ?thesis by (simp add: state_of_def)
  qed
qed

lemma fold_frame:
  assumes "\<And>x d. f (eff x d) = f d"
  shows "f (fold eff xs d) = f d"
  by (induction xs arbitrary: d) (simp_all add: assms)

subsection \<open>One round of each loop\<close>

lemma deny_pending_None:
  "deny_pending h uid session x None d = Finished None (deny_pending_done h uid session x d)"
  by (cases x) (simp add: deny_pending_def deny_pending_done_def Let_def prims)

lemma pool_query_Suc: "pool_query c (Some (Suc n)) k = k (Some n)"
  by (simp add: pool_query_def)

lemma deny_pending_Some:
  "deny_pending h uid session x (Some (4 + n)) d
     = Finished (Some n) (deny_pending_done h uid session x d)"
proof -
  have e: "4 + n = Suc (Suc (Suc (Suc n)))" by simp
  show ?thesis unfolding e
    by (cases x) (simp add: deny_pending_def deny_pending_done_def Let_def prims pool_query_Suc)
qed

lemma deny_pending_Finished:
  "holds (\<lambda>p. \<forall>g' d'. p = Finished g' d' \<longrightarrow> d' = deny_pending_done h uid session x d)
     (deny_pending h uid session x g d)"
  unfolding deny_pending_def Let_def
  apply (intro holds_intros)
  apply (simp_all add: holds_def deny_pending_done_def prims)
  done

lemma deny_pending_frame:
  "holds (\<lambda>p. undeleted d (state_of p) \<and> users (state_of p) = users d)
     (deny_pending h uid session x g d)"
  unfolding deny_pending_def Let_def
  apply (intro holds_intros)
  apply (simp_all add: holds_def undeleted_def state_of_def prims o_def)
  done

lemma notify_enrolled_None:
  "notify_enrolled h uid session tn x None d
     = Finished None (notify_enrolled_done h uid session tn x d)"
  by (simp add: notify_enrolled_def notify_enrolled_done_def Let_def prims)

lemma notify_enrolled_Some:
  "notify_enrolled h uid session tn x (Some (3 + n)) d
     = Finished (Some n) (notify_enrolled_done h uid session tn x d)"
proof -
  have e: "3 + n = Suc (Suc (Suc n))" by simp
  show ?thesis unfolding e
    by (simp add: notify_enrolled_def notify_enrolled_done_def Let_def prims pool_query_Suc)
qed

lemma notify_enrolled_Finished:
  "holds (\<lambda>p. \<forall>g' d'. p = Finished g' d' \<longrightarrow> d' = notify_enrolled_done h uid session tn x d)
     (notify_enrolled h uid session tn x g d)"
  unfolding notify_enrolled_def Let_def
  apply (intro holds_intros)
  apply (simp_all add: holds_def notify_enrolled_done_def prims)
  done

lemma notify_enrolled_frame:
  "holds (\<lambda>p. undeleted d (state_of p) \<and> users (state_of p) = users d
            \<and> session_join_requests (state_of p) = session_join_requests d)
     (notify_enrolled h uid session tn x g d)"
  unfolding notify_enrolled_def Let_def
  apply (intro holds_intros)
  apply (simp_all add: holds_def undeleted_def state_of_def prims)
  done


lemma untouched_refl [simp]: "untouched d d"
  by (simp add: untouched_def undeleted_def)

lemma untouched_trans: "untouched d d' \<Longrightarrow> untouched d' d'' \<Longrightarrow> untouched d d''"
  by (simp add: untouched_def undeleted_def)

lemma untouched_key:
  "untouched d d' \<longleftrightarrow>
     (sessions d', session_courses d', session_attendees d',
      map (\<lambda>q. (sjr_request_id q, sjr_session_id q, sjr_requester_user_id q))
          (session_join_requests d'), users d')
   = (sessions d, session_courses d, session_attendees d,
      map (\<lambda>q. (sjr_request_id q, sjr_session_id q, sjr_requester_user_id q))
          (session_join_requests d), users d)"
  by (auto simp: untouched_def undeleted_def)

lemma untouched_select_enrolled: "untouched d d' \<Longrightarrow> select_enrolled d' sid = select_enrolled d sid"
  by (simp add: untouched_def undeleted_def select_enrolled_def cong: if_cong)

lemma untouched_select_user: "untouched d d' \<Longrightarrow> select_user d' uid = select_user d uid"
  by (auto simp: untouched_def select_user_def)

subsection \<open>The first loop\<close>

lemma pending_loop_untouched:
  "untouched d (state_of (for_each (deny_pending h uid session) xs g d))"
  unfolding untouched_key
  by (rule for_each_frame)
     (use deny_pending_frame in \<open>auto simp: holds_def untouched_def undeleted_def\<close>)

lemma pending_loop_Finished:
  "for_each (deny_pending h uid session) xs g d = Finished g' d'
     \<Longrightarrow> d' = fold (deny_pending_done h uid session) xs d"
  by (rule for_each_Finished [where step = "deny_pending h uid session"])
     (use deny_pending_Finished in \<open>auto simp: holds_def\<close>)

lemma pending_loop_None:
  "for_each (deny_pending h uid session) xs None d
     = Finished None (fold (deny_pending_done h uid session) xs d)"
  by (rule for_each_None) (rule deny_pending_None)

lemma pending_loop_Some:
  "for_each (deny_pending h uid session) xs (Some (4 * length xs + n)) d
     = Finished (Some n) (fold (deny_pending_done h uid session) xs d)"
  by (rule for_each_Some) (rule deny_pending_Some)

lemma pending_done_untouched: "untouched d (fold (deny_pending_done h uid session) xs d)"
  using pending_loop_untouched [of d h uid session xs None]
  by (simp add: pending_loop_None state_of_def)

lemma delivered_refl [simp]: "delivered u [] d d"
  by (simp add: delivered_def)

lemma delivered_trans:
  "delivered u rs d d' \<Longrightarrow> delivered u rs' d' d'' \<Longrightarrow> delivered u (rs @ rs') d d''"
  unfolding delivered_def
  apply (elim exE conjE)
  subgoal for ms ms'
    by (rule exI [of _ "ms @ ms'"]) simp
  done

lemma deny_pending_done_delivered:
  "delivered uid [snd x] d (deny_pending_done h uid session x d)"
  unfolding delivered_def deny_pending_done_def
  by (rule exI [of _ "[\<lparr>m_message_id = next_message_id d, m_sender_id = uid,
        m_receiver_id = snd x, m_subject = js ''Session Cancelled: '' @ s_title session,
        m_message_type = Normal, m_message_content = cancelled_request_content h session\<rparr>]"])
     (simp add: prims copies_def)

lemma pending_done_delivered:
  "delivered uid (map snd xs) d (fold (deny_pending_done h uid session) xs d)"
proof (induction xs arbitrary: d)
  case Nil
  show ?case by simp
next
  case (Cons x xs)
  from delivered_trans [OF deny_pending_done_delivered Cons]
  show ?case by simp
qed

lemma pending_done_requests:
  "session_join_requests (fold (deny_pending_done h uid session) xs d) =
     map (\<lambda>q. if sjr_request_id q \<in> fst ` set xs
               then q\<lparr>sjr_status := Denied, sjr_responded_at := Some (now h)\<rparr> else q)
         (session_join_requests d)"
proof (induction xs arbitrary: d)
  case Nil
  show ?case by simp
next
  case (Cons x xs)
  have "session_join_requests (deny_pending_done h uid session x d) =
      map (\<lambda>q. if sjr_request_id q = fst x
               then q\<lparr>sjr_status := Denied, sjr_responded_at := Some (now h)\<rparr> else q)
          (session_join_requests d)"
    by (simp add: deny_pending_done_def prims)
  with Cons [of "deny_pending_done h uid session x d"] show ?case
    by (auto simp: o_def)
qed

subsection \<open>The second loop\<close>

lemma enrolled_loop_untouched:
  "untouched d (state_of (for_each (notify_enrolled h uid session tn) xs g d))"
  unfolding untouched_key
  by (rule for_each_frame)
     (use notify_enrolled_frame in \<open>auto simp: holds_def untouched_def undeleted_def\<close>)

lemma enrolled_loop_requests:
  "session_join_requests (state_of (for_each (notify_enrolled h uid session tn) xs g d))
     = session_join_requests d"
  by (rule for_each_frame) (use notify_enrolled_frame in \<open>auto simp: holds_def\<close>)

lemma enrolled_loop_Finished:
  "for_each (notify_enrolled h uid session tn) xs g d = Finished g' d'
     \<Longrightarrow> d' = fold (notify_enrolled_done h uid session tn) xs d"
  by (rule for_each_Finished [where step = "notify_enrolled h uid session tn"])
     (use notify_enrolled_Finished in \<open>auto simp: holds_def\<close>)

lemma enrolled_loop_None:
  "for_each (notify_enrolled h uid session tn) xs None d
     = Finished None (fold (notify_enrolled_done h uid session tn) xs d)"
  by (rule for_each_None) (rule notify_enrolled_None)

lemma enrolled_loop_Some:
  "for_each (notify_enrolled h uid session tn) xs (Some (3 * length xs + n)) d
     = Finished (Some n) (fold (notify_enrolled_done h uid session tn) xs d)"
  by (rule for_each_Some) (rule notify_enrolled_Some)

lemma enrolled_done_untouched: "untouched d (fold (notify_enrolled_done h uid session tn) xs d)"
  using enrolled_loop_untouched [of d h uid session tn xs None]
  by (simp add: enrolled_loop_None state_of_def)

lemma enrolled_done_requests:
  "session_join_requests (fold (notify_enrolled_done h uid session tn) xs d)
     = session_join_requests d"
  using enrolled_loop_requests [of h uid session tn xs None d]
  by (simp add: enrolled_loop_None state_of_def)

lemma notify_enrolled_done_delivered:
  "delivered uid [x] d (notify_enrolled_done h uid session tn x d)"
  unfolding delivered_def notify_enrolled_done_def
  by (rule exI [of _ "[\<lparr>m_message_id = next_message_id d, m_sender_id = uid,
        m_receiver_id = x, m_subject = js ''Session Cancelled: '' @ s_title session,
        m_message_type = Normal,
        m_message_content = cancelled_session_content h session tn\<rparr>]"])
     (simp add: prims copies_def)

lemma enrolled_done_delivered:
  "delivered uid xs d (fold (notify_enrolled_done h uid session tn) xs d)"
proof (induction xs arbitrary: d)
  case Nil
  show ?case by simp
next
  case (Cons x xs)
  from delivered_trans [OF notify_enrolled_done_delivered Cons]
  show ?case by simp
qed

subsection \<open>The store before the first deletion\<close>

lemma cancelled_state_untouched: "untouched d (cancelled_state h uid session sid d)"
  unfolding cancelled_state_def
  by (rule untouched_trans [OF pending_done_untouched enrolled_done_untouched])

lemma cancelled_state_delivered:
  "delivered uid (map snd (select_pending d sid) @ select_enrolled d sid) d
     (cancelled_state h uid session sid d)"
  unfolding cancelled_state_def
  by (rule delivered_trans [OF pending_done_delivered enrolled_done_delivered])

lemma cancelled_state_requests:
  "session_join_requests (cancelled_state h uid session sid d) =
     map (\<lambda>q. if sjr_request_id q \<in> fst ` set (select_pending d sid)
               then q\<lparr>sjr_status := Denied, sjr_responded_at := Some (now h)\<rparr> else q)
         (session_join_requests d)"
  by (simp add: cancelled_state_def enrolled_done_requests pending_done_requests)


subsection \<open>The handler\<close>

lemma pending_loop_Thrown:
  "for_each (deny_pending h uid session) xs g d = Thrown d' \<Longrightarrow> untouched d d'"
  using pending_loop_untouched [of d h uid session xs g] by (simp add: state_of_def)

lemma enrolled_loop_Thrown:
  "for_each (notify_enrolled h uid session tn) xs g d = Thrown d' \<Longrightarrow> untouched d d'"
  using enrolled_loop_untouched [of d h uid session tn xs g] by (simp add: state_of_def)

lemma delete_outcomes:
  assumes "userId = Some uid" "select_session d sid = session # rest"
  shows "holds (\<lambda>x. untouched d (snd x) \<or>
              (messages (snd x) = messages (cancelled_state h uid session sid d) \<and>
               user_messages (snd x) = user_messages (cancelled_state h uid session sid d)))
           (deleteSession h g userId sid d)"
  unfolding deleteSession_def Let_def
  apply (intro holds_intros)
  apply (simp_all add: holds_def assms)
  apply (auto dest!: pending_loop_Thrown pending_loop_Finished enrolled_loop_Thrown enrolled_loop_Finished
      simp: cancelled_state_def untouched_select_enrolled [OF pending_done_untouched]
        pending_done_untouched
      intro: untouched_trans [OF pending_done_untouched])
  done


lemma delete_None:
  assumes "userId = Some uid" "uid \<noteq> 0" "select_session d sid = session # rest"
    "s_tutor_id session = uid"
  shows "deleteSession h None userId sid d =
    (reply 200 True
       (deleted_message (length (select_pending d sid) + length (select_enrolled d sid))),
     (cancelled_state h uid session sid d)
       \<lparr>session_courses :=
          [sc \<leftarrow> session_courses (cancelled_state h uid session sid d). fst sc \<noteq> sid],
        session_attendees :=
          [sa \<leftarrow> session_attendees (cancelled_state h uid session sid d). sa_session_id sa \<noteq> sid],
        session_join_requests :=
          [sjr \<leftarrow> session_join_requests (cancelled_state h uid session sid d).
             sjr_session_id sjr \<noteq> sid],
        sessions := [s \<leftarrow> sessions (cancelled_state h uid session sid d). s_session_id s \<noteq> sid]\<rparr>)"
  using assms
  by (simp add: deleteSession_def Let_def falsy_id_def pending_loop_None enrolled_loop_None
        untouched_select_enrolled [OF pending_done_untouched] cancelled_state_def)

lemma delete_rejected_at_first_delete:
  assumes "userId = Some uid" "uid \<noteq> 0" "select_session d sid = session # rest"
    "s_tutor_id session = uid"
  shows "deleteSession h
           (Some (4 + 4 * length (select_pending d sid) + 3 * length (select_enrolled d sid)))
           userId sid d =
    (reply 500 False (js ''Failed to delete session''), cancelled_state h uid session sid d)"
proof -
  have e: "4 + 4 * length (select_pending d sid) + 3 * length (select_enrolled d sid) =
      Suc (Suc (Suc (Suc (4 * length (select_pending d sid)
                          + 3 * length (select_enrolled d sid)))))"
    by simp
  have l1: "for_each (deny_pending h uid session) xs (Some (Suc (4 * length xs + n))) d'
      = Finished (Some (Suc n)) (fold (deny_pending_done h uid session) xs d')" for xs n d'
    using pending_loop_Some [of h uid session xs "Suc n" d'] by simp
  have l2: "for_each (notify_enrolled h uid session tn) xs (Some (3 * length xs)) d'
      = Finished (Some 0) (fold (notify_enrolled_done h uid session tn) xs d')" for xs tn d'
    using enrolled_loop_Some [of h uid session tn xs 0 d'] by simp
  show ?thesis
    unfolding e using assms
    by (simp add: deleteSession_def Let_def falsy_id_def pool_query_Suc l1 l2
          untouched_select_enrolled [OF pending_done_untouched]
          cancelled_state_def pool_query_def)
qed

subsection \<open>Requesters and attendees that are users\<close>

lemma concat_if_replicate:
  "concat (map (\<lambda>u. if Q u then [c] else []) us) = replicate (length (filter Q us)) c"
  by (induction us) simp_all

lemma select_pending_keyed:
  assumes "\<forall>q \<in> set (session_join_requests d).
      sjr_session_id q = sid \<and> sjr_status q = Pending \<longrightarrow>
      length (select_user d (sjr_requester_user_id q)) = 1"
  shows "select_pending d sid =
     map (\<lambda>q. (sjr_request_id q, sjr_requester_user_id q))
       [q \<leftarrow> session_join_requests d. sjr_session_id q = sid \<and> sjr_status q = Pending]"
proof -
  have "\<forall>q \<in> set qs. sjr_session_id q = sid \<and> sjr_status q = Pending \<longrightarrow>
          length [u \<leftarrow> users d. sjr_requester_user_id q = u_user_id u] = 1 \<Longrightarrow>
        [(sjr_request_id sjr, sjr_requester_user_id sjr).
           sjr \<leftarrow> qs, sjr_session_id sjr = sid \<and> sjr_status sjr = Pending,
           u \<leftarrow> users d, sjr_requester_user_id sjr = u_user_id u]
        = map (\<lambda>q. (sjr_request_id q, sjr_requester_user_id q))
            [q \<leftarrow> qs. sjr_session_id q = sid \<and> sjr_status q = Pending]" for qs
    by (induction qs) (simp_all add: concat_if_replicate)
  moreover have "[u \<leftarrow> users d. k = u_user_id u] = select_user d k" for k
    by (simp add: select_user_def eq_commute)
  ultimately show ?thesis
    using assms by (simp add: select_pending_def)
qed

lemma select_enrolled_keyed:
  assumes "\<forall>a \<in> set (session_attendees d).
      sa_session_id a = sid \<longrightarrow> length (select_user d (sa_user_id a)) = 1"
  shows "select_enrolled d sid =
     map sa_user_id [a \<leftarrow> session_attendees d. sa_session_id a = sid]"
proof -
  have "\<forall>a \<in> set as. sa_session_id a = sid \<longrightarrow>
          length [u \<leftarrow> users d. sa_user_id a = u_user_id u] = 1 \<Longrightarrow>
        [sa_user_id sa. sa \<leftarrow> as, sa_session_id sa = sid,
           u \<leftarrow> users d, sa_user_id sa = u_user_id u]
        = map sa_user_id [a \<leftarrow> as. sa_session_id a = sid]" for as
    by (induction as) (simp_all add: concat_if_replicate)
  moreover have "[u \<leftarrow> users d. k = u_user_id u] = select_user d k" for k
    by (simp add: select_user_def eq_commute)
  ultimately show ?thesis
    using assms by (simp add: select_enrolled_def)
qed


subsection \<open>The cascade\<close>

text \<open>
  C2.  The owning tutor deletes a session whose pending requesters and attendees are
  users (each has one \<open>users\<close> row), with \<open>pending\<close> its pending join requests and
  \<open>enrolled\<close> its \<open>session_attendees\<close> rows.  There is a store \<open>d2\<close>, the one on which the
  first \<open>DELETE\<close> is issued (it is what the call leaves behind when exactly that
  statement is rejected), such that: nothing has been deleted in \<open>d2\<close>; every request of
  the session that was pending is denied in \<open>d2\<close> with the response time recorded;
  between the start and \<open>d2\<close> exactly one message per pending requester and one per
  enrolled student, \<open>length pending + length enrolled\<close> in all, has been inserted by the
  tutor with its two copies; whatever the gateway does, the call either has deleted
  nothing or leaves the \<open>messages\<close> and \<open>user_messages\<close> tables of \<open>d2\<close>, so every
  deletion comes after all notifications; and when no statement is rejected the call
  succeeds and leaves no join request, no enrolment, no course association and no
  session row for the session.
\<close>

theorem deleteSession_notifies_then_deletes:
  assumes owner: "userId = Some uid" "uid \<noteq> 0" "select_session d sid = session # rest"
      "s_tutor_id session = uid"
    and requesters: "\<forall>q \<in> set (session_join_requests d).
      sjr_session_id q = sid \<and> sjr_status q = Pending \<longrightarrow>
      length (select_user d (sjr_requester_user_id q)) = 1"
    and attendees: "\<forall>a \<in> set (session_attendees d).
      sa_session_id a = sid \<longrightarrow> length (select_user d (sa_user_id a)) = 1"
    and pending: "pending =
      [q \<leftarrow> session_join_requests d. sjr_session_id q = sid \<and> sjr_status q = Pending]"
    and enrolled: "enrolled = [a \<leftarrow> session_attendees d. sa_session_id a = sid]"
  shows "\<exists>d2.
    deleteSession h (Some (4 + 4 * length pending + 3 * length enrolled)) userId sid d =
      (reply 500 False (js ''Failed to delete session''), d2) \<and>
    undeleted d d2 \<and>
    list_all2 (\<lambda>q q'. sjr_session_id q = sid \<and> sjr_status q = Pending \<longrightarrow>
                 q' = q\<lparr>sjr_status := Denied, sjr_responded_at := Some (now h)\<rparr>)
      (session_join_requests d) (session_join_requests d2) \<and>
    delivered uid (map sjr_requester_user_id pending @ map sa_user_id enrolled) d d2 \<and>
    (\<forall>g r d'. deleteSession h g userId sid d = (r, d') \<longrightarrow>
        undeleted d d' \<or>
        (messages d' = messages d2 \<and> user_messages d' = user_messages d2)) \<and>
    (\<exists>d'. deleteSession h None userId sid d =
             (reply 200 True (deleted_message (length pending + length enrolled)), d') \<and>
          [q \<leftarrow> session_join_requests d'. sjr_session_id q = sid] = [] \<and>
          [a \<leftarrow> session_attendees d'. sa_session_id a = sid] = [] \<and>
          [sc \<leftarrow> session_courses d'. fst sc = sid] = [] \<and>
          select_session d' sid = [] \<and>
          messages d' = messages d2 \<and> user_messages d' = user_messages d2)"
proof -
  let ?d2 = "cancelled_state h uid session sid d"
  have sp: "select_pending d sid = map (\<lambda>q. (sjr_request_id q, sjr_requester_user_id q)) pending"
    using select_pending_keyed [OF requesters] pending by simp
  have se: "select_enrolled d sid = map sa_user_id enrolled"
    using select_enrolled_keyed [OF attendees] enrolled by simp
  have 1: "deleteSession h (Some (4 + 4 * length pending + 3 * length enrolled)) userId sid d =
      (reply 500 False (js ''Failed to delete session''), ?d2)"
    using delete_rejected_at_first_delete [OF owner, of h] by (simp add: sp se)
  have 2: "undeleted d ?d2"
    using cancelled_state_untouched [of d h uid session sid] by (simp add: untouched_def)
  have 3: "list_all2 (\<lambda>q q'. sjr_session_id q = sid \<and> sjr_status q = Pending \<longrightarrow>
                 q' = q\<lparr>sjr_status := Denied, sjr_responded_at := Some (now h)\<rparr>)
      (session_join_requests d) (session_join_requests ?d2)"
    unfolding cancelled_state_requests list_all2_map2 list_all2_same
    by (auto simp: sp pending image_iff)
  have 4: "delivered uid (map sjr_requester_user_id pending @ map sa_user_id enrolled) d ?d2"
    using cancelled_state_delivered [of uid d sid h session] by (simp add: sp se o_def)
  have 5: "undeleted d d' \<or> (messages d' = messages ?d2 \<and> user_messages d' = user_messages ?d2)"
    if "deleteSession h g userId sid d = (r, d')" for g r d'
    using delete_outcomes [OF owner(1) owner(3), of h g] that
    by (auto simp: holds_def untouched_def)
  have 6: "\<exists>d'. deleteSession h None userId sid d =
             (reply 200 True (deleted_message (length pending + length enrolled)), d') \<and>
          [q \<leftarrow> session_join_requests d'. sjr_session_id q = sid] = [] \<and>
          [a \<leftarrow> session_attendees d'. sa_session_id a = sid] = [] \<and>
          [sc \<leftarrow> session_courses d'. fst sc = sid] = [] \<and>
          select_session d' sid = [] \<and>
          messages d' = messages ?d2 \<and> user_messages d' = user_messages ?d2"
    unfolding delete_None [OF owner, of h]
    by (simp add: sp se select_session_def filter_empty_conv)
  from 1 2 3 4 5 6 show ?thesis by blast
qed

theorem deleteSession_notifies_then_deletes_witness:
  "(\<exists>d2. deleteSession ex_host (Some 11) (Some 10) 5
            (ex_db [ex_request 40 20 Pending, ex_request 41 20 Denied] [30]) =
            (reply 500 False (js ''Failed to delete session''), d2) \<and>
          undeleted (ex_db [ex_request 40 20 Pending, ex_request 41 20 Denied] [30]) d2 \<and>
          delivered 10 [20, 30] (ex_db [ex_request 40 20 Pending, ex_request 41 20 Denied] [30]) d2)
   \<and> fst (deleteSession ex_host None (Some 10) 5
            (ex_db [ex_request 40 20 Pending, ex_request 41 20 Denied] [30]))
       = reply 200 True (deleted_message 2)"
proof -
  let ?d = "ex_db [ex_request 40 20 Pending, ex_request 41 20 Denied] [30]"
  have a: "select_session ?d 5 = ex_session # []"
    by (simp add: select_session_def ex_fields)
  have b: "\<forall>q \<in> set (session_join_requests ?d).
      sjr_session_id q = 5 \<and> sjr_status q = Pending \<longrightarrow>
      length (select_user ?d (sjr_requester_user_id q)) = 1"
    by (simp add: select_user_def ex_fields)
  have c: "\<forall>a \<in> set (session_attendees ?d).
      sa_session_id a = 5 \<longrightarrow> length (select_user ?d (sa_user_id a)) = 1"
    by (simp add: select_user_def ex_fields)
  have p: "[ex_request 40 20 Pending] =
      [q \<leftarrow> session_join_requests ?d. sjr_session_id q = 5 \<and> sjr_status q = Pending]"
    by (simp add: ex_fields)
  have e: "[\<lparr>sa_session_id = 5, sa_user_id = 30\<rparr>] =
      [a \<leftarrow> session_attendees ?d. sa_session_id a = 5]"
    by (simp add: ex_fields)
  have o: "s_tutor_id ex_session = 10" "(10::nat) \<noteq> 0"
    by (simp_all add: ex_fields)
  from deleteSession_notifies_then_deletes [OF refl o(2) a o(1) b c p e, where h = ex_host]
  show ?thesis
    by (auto simp: ex_fields numeral_2_eq_2)
qed

section \<open>Notifications\<close>

lemma filing_refl [simp]: "filing d d"
  by (simp add: filing_def)

lemma filing_trans: "filing d d' \<Longrightarrow> filing d' d'' \<Longrightarrow> filing d d''"
proof -
  assume "filing d d'" "filing d' d''"
  then obtain ms ums ms' ums' where
    "messages d' = messages d @ ms" "user_messages d' = user_messages d @ ums"
    "list_all (\<lambda>um. list_ex (\<lambda>m. um \<in> set (copies m)) ms) ums"
    "messages d'' = messages d' @ ms'" "user_messages d'' = user_messages d' @ ums'"
    "list_all (\<lambda>um. list_ex (\<lambda>m. um \<in> set (copies m)) ms') ums'"
    unfolding filing_def by blast
  then have "messages d'' = messages d @ (ms @ ms') \<and>
      user_messages d'' = user_messages d @ (ums @ ums') \<and>
      list_all (\<lambda>um. list_ex (\<lambda>m. um \<in> set (copies m)) (ms @ ms')) (ums @ ums')"
    by (auto simp: list_all_iff list_ex_iff)
  then show ?thesis unfolding filing_def by blast
qed

lemma filing_same:
  "messages d' = messages d \<Longrightarrow> user_messages d' = user_messages d \<Longrightarrow> filing d d'"
  by (simp add: filing_def)

lemma filing_message:
  "messages d' = messages d @ [m] \<Longrightarrow> user_messages d' = user_messages d @ ums \<Longrightarrow>
   set ums \<subseteq> set (copies m) \<Longrightarrow> filing d d'"
  unfolding filing_def
  by (rule exI [of _ "[m]"], rule exI [of _ ums]) (auto simp: list_all_iff)

lemma deny_filing:
  "holds (\<lambda>x. filing d (snd x)) (denySessionRequest h g userId rid reason d)"
  unfolding denySessionRequest_def Let_def
  apply (intro holds_intros)
  apply (simp_all add: holds_def filing_def prims copies_def)
  done

lemma accept_filing:
  "holds (\<lambda>x. filing d (snd x)) (acceptSessionRequest h g userId rid d)"
  unfolding acceptSessionRequest_def Let_def
  apply (intro holds_intros)
  apply (simp_all add: holds_def filing_def prims copies_def)
  done

lemma send_filing:
  "holds (\<lambda>x. filing d (snd x)) (sendSessionRequest h g userId b d)"
  unfolding sendSessionRequest_def Let_def
  apply (intro holds_intros)
  apply (simp_all add: holds_def filing_def prims copies_def)
  done

lemma remove_filing:
  "holds (\<lambda>x. filing d (snd x)) (removeStudentFromSession h g userId sid studentId d)"
  unfolding removeStudentFromSession_def Let_def
  apply (intro holds_intros)
  apply (simp_all add: holds_def filing_def prims copies_def)
  done

lemma unenroll_filing:
  "holds (\<lambda>x. filing d (snd x)) (unenrollFromSession h g userId sid d)"
  unfolding unenrollFromSession_def Let_def
  apply (intro holds_intros)
  apply (simp_all add: holds_def filing_def prims copies_def)
  done


lemma filing_cong:
  "filing d d2 \<Longrightarrow> messages d' = messages d2 \<Longrightarrow> user_messages d' = user_messages d2
     \<Longrightarrow> filing d d'"
  by (simp add: filing_def)

lemma for_each_rel:
  assumes "\<And>d. R d d" and "\<And>a b c. R a b \<Longrightarrow> R b c \<Longrightarrow> R a c"
    and "\<And>x g d. R d (state_of (step x g d))"
  shows "R d (state_of (for_each step xs g d))"
proof (induction xs arbitrary: g d)
  case Nil
  show ?case by (simp add: state_of_def assms(1))
next
  case (Cons x xs)
  show ?case
  proof (cases "step x g d")
    case (Thrown d')
    with assms(3) [of d x g] show ?thesis by (simp add: state_of_def)
  next
    case (Finished g' d')
    with assms(3) [of d x g] have "R d d'" by (simp add: state_of_def)
    from assms(2) [OF this Cons [of d' g']] Finished show ?thesis by simp
  qed
qed

lemma deny_pending_filing:
  "holds (\<lambda>p. filing d (state_of p)) (deny_pending h uid session x g d)"
  unfolding deny_pending_def Let_def
  apply (intro holds_intros)
  apply (simp_all add: holds_def filing_def prims copies_def state_of_def)
  done

lemma notify_enrolled_filing:
  "holds (\<lambda>p. filing d (state_of p)) (notify_enrolled h uid session tn x g d)"
  unfolding notify_enrolled_def Let_def
  apply (intro holds_intros)
  apply (simp_all add: holds_def filing_def prims copies_def state_of_def)
  done

lemma pending_loop_filing:
  "for_each (deny_pending h uid session) xs g d = p \<Longrightarrow> filing d (state_of p)"
  using for_each_rel [of filing "deny_pending h uid session" d xs g]
    filing_trans deny_pending_filing
  by (auto simp: holds_def)

lemma enrolled_loop_filing:
  "for_each (notify_enrolled h uid session tn) xs g d = p \<Longrightarrow> filing d (state_of p)"
  using for_each_rel [of filing "notify_enrolled h uid session tn" d xs g]
    filing_trans notify_enrolled_filing
  by (auto simp: holds_def)

lemma filing_updates:
  "filing d (d'\<lparr>session_courses := a\<rparr>) = filing d d'"
  "filing d (d'\<lparr>session_attendees := b\<rparr>) = filing d d'"
  "filing d (d'\<lparr>session_join_requests := c\<rparr>) = filing d d'"
  "filing d (d'\<lparr>sessions := e\<rparr>) = filing d d'"
  by (simp_all add: filing_def)

lemma delete_filing:
  "holds (\<lambda>x. filing d (snd x)) (deleteSession h g userId sid d)"
  unfolding deleteSession_def Let_def
  apply (intro holds_intros)
  apply (simp_all add: holds_def)
  apply (auto dest!: pending_loop_filing enrolled_loop_filing
      simp: state_of_def filing_updates intro: filing_trans)
  done


subsection \<open>Successful runs\<close>

lemma no_prior_requests:
  assumes "[r \<leftarrow> rs. sjr_session_id r = sid \<and> sjr_requester_user_id r = u] = []"
  shows "[r \<leftarrow> rs. sjr_session_id r = sid \<longrightarrow> sjr_requester_user_id r \<noteq> u] = rs"
  using assms by (induction rs) (auto split: if_splits)

lemma succeeded_body [simp]:
  "succeeded \<lparr>http_status = c, body = (''success'', JBool ok) # rest\<rparr> = ok"
  by (simp add: succeeded_def)

lemma send_success:
  "holds (\<lambda>x. succeeded (fst x) \<longrightarrow>
      (\<exists>studentId sid raw tid session rest student others.
         userId = Some studentId \<and> sessionId b = Some sid \<and> tutorId b = Some raw \<and>
         tid = column_int h raw \<and> select_session d sid = session # rest \<and>
         parseInt raw = Some (int (s_tutor_id session)) \<and> studentId \<noteq> s_tutor_id session \<and>
         enrolled_count d (s_session_id session) < s_capacity session \<and>
         select_user d studentId = student # others \<and>
         x = (\<lparr>http_status = 201,
               body = [(''success'', JBool True),
                       (''message'', JStr (js ''Your request has been sent to the tutor'')),
                       (''messageId'', JNum (int (next_message_id d)))]\<rparr>,
              (insert_user_message tid (next_message_id d) Inbox False
                (insert_user_message studentId (next_message_id d) Sent True
                  (snd (insert_message studentId tid (request_subject session)
                         Session_join_request
                         (request_content h session (full_name student) (message b))
                         (d\<lparr>session_join_requests :=
                              [r \<leftarrow> session_join_requests d.
                                 \<not> (sjr_session_id r = sid
                                    \<and> sjr_requester_user_id r = studentId)]\<rparr>)))))
              \<lparr>session_join_requests :=
                 [r \<leftarrow> session_join_requests d.
                    \<not> (sjr_session_id r = sid \<and> sjr_requester_user_id r = studentId)]
                 @ [\<lparr>sjr_request_id = next_request_id d, sjr_session_id = sid,
                     sjr_requester_user_id = studentId, sjr_tutor_user_id = tid,
                     sjr_message_id = next_message_id d, sjr_status = Pending,
                     sjr_responded_at = None\<rparr>],
               next_request_id := Suc (next_request_id d)\<rparr>)))
     (sendSessionRequest h g userId b d)"
  unfolding sendSessionRequest_def Let_def
  apply (intro holds_intros)
  apply (simp_all add: holds_def)
  apply (auto simp: prims falsy_id_def no_prior_requests select_user_def select_enrollment_def
      dest!: truthy_value split: option.splits)
  done

lemma remove_success:
  "holds (\<lambda>x. succeeded (fst x) \<longrightarrow>
      (\<exists>uid session rest student others.
         userId = Some uid \<and> select_session d sid = session # rest \<and>
         s_tutor_id session = uid \<and> select_user d studentId = student # others \<and>
         select_enrollment d sid studentId \<noteq> [] \<and>
         x = (reply 200 True
                (full_name student @ js '' has been removed from the session and notified''),
              insert_user_message studentId (next_message_id d) Inbox False
                (insert_user_message uid (next_message_id d) Sent True
                  (snd (insert_message uid studentId
                         (js ''Session Update: '' @ s_title session) Normal
                         (removed_content h session
                            (name_or (select_user d uid) (js ''The tutor'')))
                         (downgrade_accepted sid studentId (now h)
                            (delete_enrollment sid studentId d))))))))
     (removeStudentFromSession h g userId sid studentId d)"
  unfolding removeStudentFromSession_def Let_def
  apply (intro holds_intros)
  apply (simp_all add: holds_def)
  apply (auto simp: prims falsy_id_def select_user_def split: option.splits)
  done

lemma delete_success:
  "holds (\<lambda>x. succeeded (fst x) \<longrightarrow>
      (\<exists>uid session rest.
         userId = Some uid \<and> uid \<noteq> 0 \<and> select_session d sid = session # rest \<and>
         s_tutor_id session = uid \<and> x = deleteSession h None userId sid d))
     (deleteSession h g userId sid d)"
  unfolding deleteSession_def [of h g] Let_def
  apply (intro holds_intros)
  apply (simp_all add: holds_def)
  apply (auto dest!: pending_loop_Finished enrolled_loop_Finished
      simp: falsy_id_def delete_None cancelled_state_def
        untouched_select_enrolled [OF pending_done_untouched] split: option.splits)
  done


lemma delivered_one:
  assumes "messages d0 = messages d" "user_messages d0 = user_messages d"
  shows "delivered s [r] d
    (insert_user_message r (next_message_id d0) Inbox False
      (insert_user_message s (next_message_id d0) Sent True
        (snd (insert_message s r subj ty c d0))))"
  unfolding delivered_def
  by (rule exI [of _ "[\<lparr>m_message_id = next_message_id d0, m_sender_id = s, m_receiver_id = r,
        m_subject = subj, m_message_type = ty, m_message_content = c\<rparr>]"])
     (simp add: prims copies_def assms)

lemma delivered_updates:
  "delivered s rs d (d'\<lparr>session_courses := a\<rparr>) = delivered s rs d d'"
  "delivered s rs d (d'\<lparr>session_attendees := b\<rparr>) = delivered s rs d d'"
  "delivered s rs d (d'\<lparr>session_join_requests := c\<rparr>) = delivered s rs d d'"
  "delivered s rs d (d'\<lparr>sessions := e\<rparr>) = delivered s rs d d'"
  "delivered s rs d (d'\<lparr>next_request_id := n\<rparr>) = delivered s rs d d'"
  by (simp_all add: delivered_def)

subsection \<open>Runs that succeed\<close>

lemma send_succeeds:
  assumes "userId = Some studentId" "studentId \<noteq> 0" "sessionId b = Some sid" "sid \<noteq> 0"
    and "tutorId b = Some raw" "parseInt raw = Some (int (s_tutor_id session))"
    and "s_tutor_id session \<noteq> 0"
    and "select_session d sid = session # rest" "studentId \<noteq> s_tutor_id session"
    and "enrolled_count d sid < s_capacity session"
    and "[r \<leftarrow> session_join_requests d.
            sjr_session_id r = sid \<and> sjr_requester_user_id r = studentId] = []"
    and "select_enrollment d sid studentId = []" "select_user d studentId \<noteq> []"
  shows "succeeded (fst (sendSessionRequest h None userId b d))"
proof -
  have "s_session_id session = sid"
    using assms(8) by (metis (mono_tags, lifting) filter_eq_ConsD select_session_def)
  moreover have "\<not> falsy_value (tutorId b)"
    using falsy_value_parseInt [of raw] assms(5,6,7) by auto
  moreover obtain student others where "select_user d studentId = student # others"
    using assms(13) by (cases "select_user d studentId") auto
  ultimately show ?thesis
    using assms
    by (simp add: sendSessionRequest_def falsy_id_def Let_def split_def prims)
qed

lemma accept_succeeds:
  assumes "userId = Some tutor" "tutor \<noteq> 0"
    and "select_request d requestId = (request, session, student) # rest"
    and "sjr_tutor_user_id request = tutor" "sjr_status request = Pending"
    and "enrolled_count d (sjr_session_id request) < s_capacity session"
    and "select_enrollment d (sjr_session_id request) (u_user_id student) = []"
  shows "succeeded (fst (acceptSessionRequest h None userId (Some requestId) d))"
  using assms
  by (simp add: acceptSessionRequest_def falsy_id_def Let_def split_def)

lemma deny_succeeds:
  assumes "userId = Some tutor" "tutor \<noteq> 0"
    and "select_request d requestId = (request, session, student) # rest"
    and "sjr_tutor_user_id request = tutor" "sjr_status request = Pending"
  shows "succeeded (fst (denySessionRequest h None userId (Some requestId) reason d))"
  using assms
  by (simp add: denySessionRequest_def falsy_id_def Let_def split_def)

lemma remove_succeeds:
  assumes "userId = Some uid" "uid \<noteq> 0" "select_session d sid = session # rest"
    and "s_tutor_id session = uid" "select_user d studentId \<noteq> []"
    and "select_enrollment d sid studentId \<noteq> []"
  shows "succeeded (fst (removeStudentFromSession h None userId sid studentId d))"
proof -
  obtain student others where "select_user d studentId = student # others"
    using assms(5) by (cases "select_user d studentId") auto
  with assms show ?thesis
    by (simp add: removeStudentFromSession_def falsy_id_def Let_def split_def)
qed

lemma unenroll_succeeds:
  assumes "userId = Some uid" "uid \<noteq> 0" "select_session_tutor d sid \<noteq> []"
    and "select_enrollment d sid uid \<noteq> []"
  shows "succeeded (fst (unenrollFromSession h None userId sid d))"
proof -
  obtain session tutor rest where "select_session_tutor d sid = (session, tutor) # rest"
    using assms(3) by (cases "select_session_tutor d sid") auto
  with assms show ?thesis
    by (simp add: unenrollFromSession_def falsy_id_def Let_def split_def)
qed

lemma delete_succeeds:
  assumes "userId = Some uid" "uid \<noteq> 0" "select_session d sid = session # rest"
    and "s_tutor_id session = uid"
  shows "succeeded (fst (deleteSession h None userId sid d))"
  by (simp add: delete_None [OF assms])

lemma delivered_rows:
  assumes "delivered s rs d d'" and "messages d = []" and "user_messages d = []"
  shows "map (\<lambda>m. (m_sender_id m, m_receiver_id m)) (messages d') = map (\<lambda>r. (s, r)) rs \<and>
         map (\<lambda>um. (um_user_id um, um_folder um, um_is_read um)) (user_messages d') =
           concat (map (\<lambda>r. [(s, Sent, True), (r, Inbox, False)]) rs)"
proof -
  from assms obtain ms where ms: "map m_receiver_id ms = rs"
      "map m_sender_id ms = map (\<lambda>_. s) rs"
      "messages d' = ms" "user_messages d' = concat (map copies ms)"
    by (auto simp: delivered_def)
  from ms(1,2)
  have "map (\<lambda>m. (m_sender_id m, m_receiver_id m)) ms = map (\<lambda>r. (s, r)) rs \<and>
        map (\<lambda>um. (um_user_id um, um_folder um, um_is_read um)) (concat (map copies ms)) =
          concat (map (\<lambda>r. [(s, Sent, True), (r, Inbox, False)]) rs)"
    by (induction ms arbitrary: rs) (auto simp: copies_def)
  with ms(3,4) show ?thesis by simp
qed

text \<open>
  C10.  Whatever the gateway does, every \<open>user_messages\<close> row that
  \<open>sendSessionRequest\<close>, \<open>acceptSessionRequest\<close>, \<open>denySessionRequest\<close>,
  \<open>removeStudentFromSession\<close>, \<open>unenrollFromSession\<close> or \<open>deleteSession\<close> writes is a copy of
  a message written by the same call: the sender's copy in folder sent with
  \<open>is_read = 1\<close> or the receiver's copy in folder inbox with \<open>is_read = 0\<close>.  When the call
  succeeds it has written exactly one \<open>messages\<close> row per notification (one, or for
  \<open>deleteSession\<close> one per pending requester and per enrolled student) and for each of
  them exactly these two \<open>user_messages\<close> rows.  And each of the six calls does succeed
  when no statement is rejected and the checks of its handler pass: for
  \<open>removeStudentFromSession\<close>, when the caller owns the session and the student is a user
  enrolled in it.
\<close>

theorem notifications_are_filed_sent_read_and_inbox_unread:
  "(\<forall>r d'. sendSessionRequest h g userId b d = (r, d') \<longrightarrow>
      filing d d' \<and>
      (succeeded r \<longrightarrow>
         (\<exists>studentId raw. userId = Some studentId \<and> tutorId b = Some raw \<and>
            delivered studentId [column_int h raw] d d'))) \<and>
   (\<forall>r d'. acceptSessionRequest h g userId rid d = (r, d') \<longrightarrow>
      filing d d' \<and>
      (succeeded r \<longrightarrow>
         (\<exists>tutor requestId request session student rest.
            userId = Some tutor \<and> rid = Some requestId \<and>
            select_request d requestId = (request, session, student) # rest \<and>
            delivered tutor [sjr_requester_user_id request] d d'))) \<and>
   (\<forall>r d'. denySessionRequest h g userId rid reason d = (r, d') \<longrightarrow>
      filing d d' \<and>
      (succeeded r \<longrightarrow>
         (\<exists>tutor requestId request session student rest.
            userId = Some tutor \<and> rid = Some requestId \<and>
            select_request d requestId = (request, session, student) # rest \<and>
            delivered tutor [sjr_requester_user_id request] d d'))) \<and>
   (\<forall>r d'. removeStudentFromSession h g userId sid studentId d = (r, d') \<longrightarrow>
      filing d d' \<and>
      (succeeded r \<longrightarrow> (\<exists>uid. userId = Some uid \<and> delivered uid [studentId] d d'))) \<and>
   (\<forall>r d'. unenrollFromSession h g userId sid d = (r, d') \<longrightarrow>
      filing d d' \<and>
      (succeeded r \<longrightarrow>
         (\<exists>uid session tutor rest.
            userId = Some uid \<and> select_session_tutor d sid = (session, tutor) # rest \<and>
            delivered uid [s_tutor_id session] d d'))) \<and>
   (\<forall>r d'. deleteSession h g userId sid d = (r, d') \<longrightarrow>
      filing d d' \<and>
      (succeeded r \<longrightarrow>
         (\<exists>uid. userId = Some uid \<and>
            delivered uid (map snd (select_pending d sid) @ select_enrolled d sid) d d'))) \<and>
   (\<forall>studentId sid' raw session rest.
      userId = Some studentId \<and> studentId \<noteq> 0 \<and> sessionId b = Some sid' \<and> sid' \<noteq> 0 \<and>
      tutorId b = Some raw \<and> parseInt raw = Some (int (s_tutor_id session)) \<and>
      s_tutor_id session \<noteq> 0 \<and> select_session d sid' = session # rest \<and>
      studentId \<noteq> s_tutor_id session \<and> enrolled_count d sid' < s_capacity session \<and>
      [q \<leftarrow> session_join_requests d.
         sjr_session_id q = sid' \<and> sjr_requester_user_id q = studentId] = [] \<and>
      select_enrollment d sid' studentId = [] \<and> select_user d studentId \<noteq> [] \<longrightarrow>
      succeeded (fst (sendSessionRequest h None userId b d))) \<and>
   (\<forall>tutor requestId request session student rest.
      userId = Some tutor \<and> tutor \<noteq> 0 \<and> rid = Some requestId \<and>
      select_request d requestId = (request, session, student) # rest \<and>
      sjr_tutor_user_id request = tutor \<and> sjr_status request = Pending \<and>
      enrolled_count d (sjr_session_id request) < s_capacity session \<and>
      select_enrollment d (sjr_session_id request) (u_user_id student) = [] \<longrightarrow>
      succeeded (fst (acceptSessionRequest h None userId rid d))) \<and>
   (\<forall>tutor requestId request session student rest.
      userId = Some tutor \<and> tutor \<noteq> 0 \<and> rid = Some requestId \<and>
      select_request d requestId = (request, session, student) # rest \<and>
      sjr_tutor_user_id request = tutor \<and> sjr_status request = Pending \<longrightarrow>
      succeeded (fst (denySessionRequest h None userId rid reason d))) \<and>
   (\<forall>uid session rest.
      userId = Some uid \<and> uid \<noteq> 0 \<and> select_session d sid = session # rest \<and>
      s_tutor_id session = uid \<and> select_user d studentId \<noteq> [] \<and>
      select_enrollment d sid studentId \<noteq> [] \<longrightarrow>
      succeeded (fst (removeStudentFromSession h None userId sid studentId d))) \<and>
   (\<forall>uid.
      userId = Some uid \<and> uid \<noteq> 0 \<and> select_session_tutor d sid \<noteq> [] \<and>
      select_enrollment d sid uid \<noteq> [] \<longrightarrow>
      succeeded (fst (unenrollFromSession h None userId sid d))) \<and>
   (\<forall>uid session rest.
      userId = Some uid \<and> uid \<noteq> 0 \<and> select_session d sid = session # rest \<and>
      s_tutor_id session = uid \<longrightarrow>
      succeeded (fst (deleteSession h None userId sid d)))"
proof (intro conjI allI impI)
  fix r d' assume "sendSessionRequest h g userId b d = (r, d')"
  with send_filing [of d h g userId b] show "filing d d'" by (simp add: holds_def)
next
  fix r d' assume run: "sendSessionRequest h g userId b d = (r, d')" and ok: "succeeded r"
  from send_success [where userId = userId and b = b and d = d and h = h and g = g] run ok
  obtain studentId sid raw tid session student where
    f: "userId = Some studentId" "tutorId b = Some raw" "tid = column_int h raw"
    and d': "d' = (insert_user_message tid (next_message_id d) Inbox False
                (insert_user_message studentId (next_message_id d) Sent True
                  (snd (insert_message studentId tid (request_subject session)
                         Session_join_request
                         (request_content h session (full_name student) (message b))
                         (d\<lparr>session_join_requests :=
                              [r \<leftarrow> session_join_requests d.
                                 \<not> (sjr_session_id r = sid
                                    \<and> sjr_requester_user_id r = studentId)]\<rparr>)))))
              \<lparr>session_join_requests :=
                 [r \<leftarrow> session_join_requests d.
                    \<not> (sjr_session_id r = sid \<and> sjr_requester_user_id r = studentId)]
                 @ [\<lparr>sjr_request_id = next_request_id d, sjr_session_id = sid,
                     sjr_requester_user_id = studentId, sjr_tutor_user_id = tid,
                     sjr_message_id = next_message_id d, sjr_status = Pending,
                     sjr_responded_at = None\<rparr>],
               next_request_id := Suc (next_request_id d)\<rparr>"
    by (auto simp: holds_def)
  have n: "next_message_id d = next_message_id (d\<lparr>session_join_requests :=
                              [r \<leftarrow> session_join_requests d.
                                 \<not> (sjr_session_id r = sid
                                    \<and> sjr_requester_user_id r = studentId)]\<rparr>)"
    by simp
  have "delivered studentId [tid] d d'"
    unfolding d' delivered_updates
    by (subst (1 2) n, rule delivered_one) simp_all
  with f show "\<exists>studentId raw. userId = Some studentId \<and> tutorId b = Some raw \<and>
            delivered studentId [column_int h raw] d d'"
    by simp
next
  fix r d' assume "acceptSessionRequest h g userId rid d = (r, d')"
  with accept_filing [of d h g userId rid] show "filing d d'" by (simp add: holds_def)
next
  fix r d' assume run: "acceptSessionRequest h g userId rid d = (r, d')" and ok: "succeeded r"
  from accept_success [of userId rid d h g] run ok
  obtain tutor requestId request session student rest where
    f: "userId = Some tutor" "rid = Some requestId"
       "select_request d requestId = (request, session, student) # rest"
    and d': "d' = insert_user_message (u_user_id student) (next_message_id d) Inbox False
               (insert_user_message tutor (next_message_id d) Sent True
                 (snd (insert_message tutor (u_user_id student)
                        (js ''Request Accepted: '' @ s_title session) Normal
                        (accept_content h session
                           (name_or (select_user d tutor) (js ''Your tutor'')))
                        (insert_attendee (sjr_session_id request) (u_user_id student)
                           (set_request_status requestId Accepted (now h) d)))))"
    by (auto simp: holds_def)
  have n: "next_message_id d = next_message_id (insert_attendee (sjr_session_id request)
      (u_user_id student) (set_request_status requestId Accepted (now h) d))"
    by (simp add: prims)
  have "delivered tutor [u_user_id student] d d'"
    unfolding d' n by (rule delivered_one) (simp_all add: prims)
  with select_request_hd [OF f(3)] f
  show "\<exists>tutor requestId request session student rest.
            userId = Some tutor \<and> rid = Some requestId \<and>
            select_request d requestId = (request, session, student) # rest \<and>
            delivered tutor [sjr_requester_user_id request] d d'"
    by auto
next
  fix r d' assume "denySessionRequest h g userId rid reason d = (r, d')"
  with deny_filing [of d h g userId rid reason] show "filing d d'" by (simp add: holds_def)
next
  fix r d' assume run: "denySessionRequest h g userId rid reason d = (r, d')"
    and ok: "succeeded r"
  from deny_success [of userId rid d reason h g] run ok
  obtain tutor requestId request session student rest where
    f: "userId = Some tutor" "rid = Some requestId"
       "select_request d requestId = (request, session, student) # rest"
    and d': "d' = insert_user_message (u_user_id student) (next_message_id d) Inbox False
               (insert_user_message tutor (next_message_id d) Sent True
                 (snd (insert_message tutor (u_user_id student)
                        (js ''Request Update: '' @ s_title session) Normal
                        (deny_content session reason)
                        (set_request_status requestId Denied (now h) d))))"
    by (auto simp: holds_def)
  have n: "next_message_id d = next_message_id (set_request_status requestId Denied (now h) d)"
    by (simp add: prims)
  have "delivered tutor [u_user_id student] d d'"
    unfolding d' n by (rule delivered_one) (simp_all add: prims)
  with select_request_hd [OF f(3)] f
  show "\<exists>tutor requestId request session student rest.
            userId = Some tutor \<and> rid = Some requestId \<and>
            select_request d requestId = (request, session, student) # rest \<and>
            delivered tutor [sjr_requester_user_id request] d d'"
    by auto
next
  fix r d' assume "removeStudentFromSession h g userId sid studentId d = (r, d')"
  with remove_filing [of d h g userId sid studentId] show "filing d d'" by (simp add: holds_def)
next
  fix r d' assume run: "removeStudentFromSession h g userId sid studentId d = (r, d')"
    and ok: "succeeded r"
  from remove_success [of userId d sid studentId h g] run ok
  obtain uid session where
    f: "userId = Some uid"
    and d': "d' = insert_user_message studentId (next_message_id d) Inbox False
                (insert_user_message uid (next_message_id d) Sent True
                  (snd (insert_message uid studentId
                         (js ''Session Update: '' @ s_title session) Normal
                         (removed_content h session
                            (name_or (select_user d uid) (js ''The tutor'')))
                         (downgrade_accepted sid studentId (now h)
                            (delete_enrollment sid studentId d)))))"
    by (auto simp: holds_def)
  have n: "next_message_id d = next_message_id (downgrade_accepted sid studentId (now h)
                            (delete_enrollment sid studentId d))"
    by (simp add: prims)
  have "delivered uid [studentId] d d'"
    unfolding d' n by (rule delivered_one) (simp_all add: prims)
  with f show "\<exists>uid. userId = Some uid \<and> delivered uid [studentId] d d'" by simp
next
  fix r d' assume "unenrollFromSession h g userId sid d = (r, d')"
  with unenroll_filing [of d h g userId sid] show "filing d d'" by (simp add: holds_def)
next
  fix r d' assume run: "unenrollFromSession h g userId sid d = (r, d')" and ok: "succeeded r"
  from unenroll_success [of userId d sid h g] run ok
  obtain uid session tutor rest where
    f: "userId = Some uid" "select_session_tutor d sid = (session, tutor) # rest"
    and d': "d' = insert_user_message (s_tutor_id session) (next_message_id d) Inbox False
               (insert_user_message uid (next_message_id d) Sent True
                 (snd (insert_message uid (s_tutor_id session)
                        (js ''Student Unenrolled: '' @ s_title session) Normal
                        (unenrolled_content h session
                           (name_or (select_user d uid) (js ''A student'')))
                        (downgrade_accepted sid uid (now h) (delete_enrollment sid uid d)))))"
    by (auto simp: holds_def)
  have n: "next_message_id d
      = next_message_id (downgrade_accepted sid uid (now h) (delete_enrollment sid uid d))"
    by (simp add: prims)
  have "delivered uid [s_tutor_id session] d d'"
    unfolding d' n by (rule delivered_one) (simp_all add: prims)
  with f show "\<exists>uid session tutor rest.
            userId = Some uid \<and> select_session_tutor d sid = (session, tutor) # rest \<and>
            delivered uid [s_tutor_id session] d d'"
    by auto
next
  fix r d' assume "deleteSession h g userId sid d = (r, d')"
  with delete_filing [of d h g userId sid] show "filing d d'" by (simp add: holds_def)
next
  fix r d' assume run: "deleteSession h g userId sid d = (r, d')" and ok: "succeeded r"
  from delete_success [of userId d sid h g] run ok
  obtain uid session rest where
    f: "userId = Some uid" "uid \<noteq> 0" "select_session d sid = session # rest"
       "s_tutor_id session = uid"
    and x: "(r, d') = deleteSession h None userId sid d"
    by (auto simp: holds_def)
  from x cancelled_state_delivered [of uid d sid h session]
  have "delivered uid (map snd (select_pending d sid) @ select_enrolled d sid) d d'"
    unfolding delete_None [OF f, of h] by (auto simp: delivered_updates)
  with f show "\<exists>uid. userId = Some uid \<and>
            delivered uid (map snd (select_pending d sid) @ select_enrolled d sid) d d'"
    by simp
next
  fix studentId sid' raw session rest
  assume "userId = Some studentId \<and> studentId \<noteq> 0 \<and> sessionId b = Some sid' \<and> sid' \<noteq> 0 \<and>
      tutorId b = Some raw \<and> parseInt raw = Some (int (s_tutor_id session)) \<and>
      s_tutor_id session \<noteq> 0 \<and> select_session d sid' = session # rest \<and>
      studentId \<noteq> s_tutor_id session \<and> enrolled_count d sid' < s_capacity session \<and>
      [q \<leftarrow> session_join_requests d.
         sjr_session_id q = sid' \<and> sjr_requester_user_id q = studentId] = [] \<and>
      select_enrollment d sid' studentId = [] \<and> select_user d studentId \<noteq> []"
  then show "succeeded (fst (sendSessionRequest h None userId b d))"
    by (elim conjE) (rule send_succeeds; assumption)
next
  fix tutor requestId request session student rest
  assume "userId = Some tutor \<and> tutor \<noteq> 0 \<and> rid = Some requestId \<and>
      select_request d requestId = (request, session, student) # rest \<and>
      sjr_tutor_user_id request = tutor \<and> sjr_status request = Pending \<and>
      enrolled_count d (sjr_session_id request) < s_capacity session \<and>
      select_enrollment d (sjr_session_id request) (u_user_id student) = []"
  then show "succeeded (fst (acceptSessionRequest h None userId rid d))"
    using accept_succeeds [of userId tutor d requestId request session student rest h] by simp
next
  fix tutor requestId request session student rest
  assume "userId = Some tutor \<and> tutor \<noteq> 0 \<and> rid = Some requestId \<and>
      select_request d requestId = (request, session, student) # rest \<and>
      sjr_tutor_user_id request = tutor \<and> sjr_status request = Pending"
  then show "succeeded (fst (denySessionRequest h None userId rid reason d))"
    using deny_succeeds [of userId tutor d requestId request session student rest h reason]
    by simp
next
  fix uid session rest
  assume "userId = Some uid \<and> uid \<noteq> 0 \<and> select_session d sid = session # rest \<and>
      s_tutor_id session = uid \<and> select_user d studentId \<noteq> [] \<and>
      select_enrollment d sid studentId \<noteq> []"
  then show "succeeded (fst (removeStudentFromSession h None userId sid studentId d))"
    by (elim conjE) (rule remove_succeeds; assumption)
next
  fix uid
  assume "userId = Some uid \<and> uid \<noteq> 0 \<and> select_session_tutor d sid \<noteq> [] \<and>
      select_enrollment d sid uid \<noteq> []"
  then show "succeeded (fst (unenrollFromSession h None userId sid d))"
    by (elim conjE) (rule unenroll_succeeds; assumption)
next
  fix uid session rest
  assume "userId = Some uid \<and> uid \<noteq> 0 \<and> select_session d sid = session # rest \<and>
      s_tutor_id session = uid"
  then show "succeeded (fst (deleteSession h None userId sid d))"
    by (elim conjE) (rule delete_succeeds; assumption)
qed

theorem notifications_are_filed_sent_read_and_inbox_unread_witness:
  "(let x = sendSessionRequest ex_host None (Some 20)
              \<lparr>sessionId = Some 5, tutorId = Some ex_ten, message = None\<rparr> (ex_db [] [])
    in succeeded (fst x) \<and>
       map (\<lambda>m. (m_sender_id m, m_receiver_id m)) (messages (snd x)) = [(20, 10)] \<and>
       map (\<lambda>um. (um_user_id um, um_folder um, um_is_read um)) (user_messages (snd x)) =
         [(20, Sent, True), (10, Inbox, False)])
   \<and> (let x = acceptSessionRequest ex_host None (Some 10) (Some 40)
                 (ex_db [ex_request 40 20 Pending] [])
      in succeeded (fst x) \<and>
         map (\<lambda>m. (m_sender_id m, m_receiver_id m)) (messages (snd x)) = [(10, 20)] \<and>
         map (\<lambda>um. (um_user_id um, um_folder um, um_is_read um)) (user_messages (snd x)) =
           [(10, Sent, True), (20, Inbox, False)])
   \<and> (let x = denySessionRequest ex_host None (Some 10) (Some 40) None
                 (ex_db [ex_request 40 20 Pending] [])
      in succeeded (fst x) \<and>
         map (\<lambda>m. (m_sender_id m, m_receiver_id m)) (messages (snd x)) = [(10, 20)] \<and>
         map (\<lambda>um. (um_user_id um, um_folder um, um_is_read um)) (user_messages (snd x)) =
           [(10, Sent, True), (20, Inbox, False)])
   \<and> (let x = removeStudentFromSession ex_host None (Some 10) 5 20 (ex_db [] [20])
      in succeeded (fst x) \<and>
         map (\<lambda>m. (m_sender_id m, m_receiver_id m)) (messages (snd x)) = [(10, 20)] \<and>
         map (\<lambda>um. (um_user_id um, um_folder um, um_is_read um)) (user_messages (snd x)) =
           [(10, Sent, True), (20, Inbox, False)])
   \<and> (let x = unenrollFromSession ex_host None (Some 20) 5 (ex_db [] [20])
      in succeeded (fst x) \<and>
         map (\<lambda>m. (m_sender_id m, m_receiver_id m)) (messages (snd x)) = [(20, 10)] \<and>
         map (\<lambda>um. (um_user_id um, um_folder um, um_is_read um)) (user_messages (snd x)) =
           [(20, Sent, True), (10, Inbox, False)])
   \<and> (let x = deleteSession ex_host None (Some 10) 5 (ex_db [ex_request 40 20 Pending] [30])
      in succeeded (fst x) \<and>
         map (\<lambda>m. (m_sender_id m, m_receiver_id m)) (messages (snd x)) = [(10, 20), (10, 30)] \<and>
         map (\<lambda>um. (um_user_id um, um_folder um, um_is_read um)) (user_messages (snd x)) =
           [(10, Sent, True), (20, Inbox, False), (10, Sent, True), (30, Inbox, False)])
   \<and> filing (ex_db [ex_request 40 20 Pending] [])
        (snd (acceptSessionRequest ex_host (Some 5) (Some 10) (Some 40)
                (ex_db [ex_request 40 20 Pending] [])))"
proof -
  let ?b = "\<lparr>sessionId = Some 5, tutorId = Some ex_ten, message = None\<rparr>"
  let ?p = "ex_db [ex_request 40 20 Pending] []"
  let ?e = "ex_db [] [20]"
  let ?c = "ex_db [ex_request 40 20 Pending] [30]"
  let ?S = "sendSessionRequest ex_host None (Some 20) ?b (ex_db [] [])"
  let ?A = "acceptSessionRequest ex_host None (Some 10) (Some 40) ?p"
  let ?D = "denySessionRequest ex_host None (Some 10) (Some 40) None ?p"
  let ?R = "removeStudentFromSession ex_host None (Some 10) 5 20 ?e"
  let ?U = "unenrollFromSession ex_host None (Some 20) 5 ?e"
  let ?C = "deleteSession ex_host None (Some 10) 5 ?c"
  let ?Y = "acceptSessionRequest ex_host (Some 5) (Some 10) (Some 40) ?p"
  note t = notifications_are_filed_sent_read_and_inbox_unread [where h = ex_host]
  have z: "messages (ex_db rs en) = []" "user_messages (ex_db rs en) = []" for rs en
    by (simp_all add: ex_fields)
  have e: "enrolled_count (ex_db rs []) 5 < 2"
    "select_enrollment (ex_db rs []) 5 20 = []" "select_enrollment (ex_db rs [20]) 5 20 \<noteq> []"
    "select_user (ex_db rs en) 20 \<noteq> []" "select_session_tutor (ex_db rs en) 5 \<noteq> []"
    "select_pending ?c 5 = [(40, 20)]" "select_enrolled ?c 5 = [30]" for rs en
    by (simp_all add: enrolled_count_def select_enrollment_def select_user_def
          select_session_tutor_def select_pending_def select_enrolled_def ex_fields)

  have s1: "succeeded (fst ?S)"
    using t [where g = None and userId = "Some 20" and b = ?b and d = "ex_db [] []",
             THEN conjunct2, THEN conjunct2, THEN conjunct2, THEN conjunct2, THEN conjunct2,
             THEN conjunct2, THEN conjunct1, rule_format,
             of 20 5 ex_ten ex_session "[]"]
    by (simp add: ex_fields ex_select_session e)
  from t [where g = None and userId = "Some 20" and b = ?b and d = "ex_db [] []",
          THEN conjunct1, rule_format, OF surjective_pairing] s1
  have "delivered 20 [10] (ex_db [] []) (snd ?S)"
    by (auto simp: ex_fields)
  note r1 = delivered_rows [OF this z]

  have s2: "succeeded (fst ?A)"
    using t [where g = None and userId = "Some 10" and rid = "Some 40" and d = ?p,
             THEN conjunct2, THEN conjunct2, THEN conjunct2, THEN conjunct2, THEN conjunct2,
             THEN conjunct2, THEN conjunct2, THEN conjunct1, rule_format,
             of 10 40 "ex_request 40 20 Pending" ex_session "ex_user 20 Student" "[]"]
    by (simp add: ex_fields ex_select_request e)
  from t [where g = None and userId = "Some 10" and rid = "Some 40" and d = ?p,
          THEN conjunct2, THEN conjunct1, rule_format, OF surjective_pairing] s2
  have "delivered 10 [20] ?p (snd ?A)"
    by (auto simp: ex_select_request ex_fields)
  note r2 = delivered_rows [OF this z]

  have s3: "succeeded (fst ?D)"
    using t [where g = None and userId = "Some 10" and rid = "Some 40" and d = ?p
               and reason = None,
             THEN conjunct2, THEN conjunct2, THEN conjunct2, THEN conjunct2, THEN conjunct2,
             THEN conjunct2, THEN conjunct2, THEN conjunct2, THEN conjunct1, rule_format,
             of 10 40 "ex_request 40 20 Pending" ex_session "ex_user 20 Student" "[]"]
    by (simp add: ex_fields ex_select_request)
  from t [where g = None and userId = "Some 10" and rid = "Some 40" and d = ?p
            and reason = None,
          THEN conjunct2, THEN conjunct2, THEN conjunct1, rule_format, OF surjective_pairing] s3
  have "delivered 10 [20] ?p (snd ?D)"
    by (auto simp: ex_select_request ex_fields)
  note r3 = delivered_rows [OF this z]

  have s4: "succeeded (fst ?R)"
    using t [where g = None and userId = "Some 10" and sid = 5 and studentId = 20 and d = ?e,
             THEN conjunct2, THEN conjunct2, THEN conjunct2, THEN conjunct2, THEN conjunct2,
             THEN conjunct2, THEN conjunct2, THEN conjunct2, THEN conjunct2, THEN conjunct1,
             rule_format, of 10 ex_session "[]"]
    by (simp add: ex_fields ex_select_session e)
  from t [where g = None and userId = "Some 10" and sid = 5 and studentId = 20 and d = ?e,
          THEN conjunct2, THEN conjunct2, THEN conjunct2, THEN conjunct1, rule_format,
          OF surjective_pairing] s4
  have "delivered 10 [20] ?e (snd ?R)"
    by auto
  note r4 = delivered_rows [OF this z]

  have s5: "succeeded (fst ?U)"
    using t [where g = None and userId = "Some 20" and sid = 5 and d = ?e,
             THEN conjunct2, THEN conjunct2, THEN conjunct2, THEN conjunct2, THEN conjunct2,
             THEN conjunct2, THEN conjunct2, THEN conjunct2, THEN conjunct2, THEN conjunct2,
             THEN conjunct1, rule_format, of 20]
    by (simp add: e)
  have st: "select_session_tutor ?e 5 = [(ex_session, ex_user 10 Tutor)]"
    by (simp add: select_session_tutor_def ex_fields)
  from t [where g = None and userId = "Some 20" and sid = 5 and d = ?e,
          THEN conjunct2, THEN conjunct2, THEN conjunct2, THEN conjunct2, THEN conjunct1,
          rule_format, OF surjective_pairing] s5
  have "delivered 20 [10] ?e (snd ?U)"
    by (auto simp: st ex_fields)
  note r5 = delivered_rows [OF this z]

  have s6: "succeeded (fst ?C)"
    using t [where g = None and userId = "Some 10" and sid = 5 and d = ?c,
             THEN conjunct2, THEN conjunct2, THEN conjunct2, THEN conjunct2, THEN conjunct2,
             THEN conjunct2, THEN conjunct2, THEN conjunct2, THEN conjunct2, THEN conjunct2,
             THEN conjunct2, rule_format, of 10 ex_session "[]"]
    by (simp add: ex_fields ex_select_session)
  from t [where g = None and userId = "Some 10" and sid = 5 and d = ?c,
          THEN conjunct2, THEN conjunct2, THEN conjunct2, THEN conjunct2, THEN conjunct2,
          THEN conjunct1, rule_format, OF surjective_pairing] s6
  have "delivered 10 [20, 30] ?c (snd ?C)"
    by (auto simp: e)
  note r6 = delivered_rows [OF this z]

  from t [where g = "Some 5" and userId = "Some 10" and d = ?p and rid = "Some 40",
          THEN conjunct2, THEN conjunct1, rule_format, OF surjective_pairing]
  have 7: "filing ?p (snd ?Y)" by blast
  show ?thesis
    unfolding Let_def using s1 r1 s2 r2 s3 r3 s4 r4 s5 r5 s6 r6 7 by simp
qed

section \<open>The checks of an accept\<close>




section \<open>The shapes of the answers\<close>





section \<open>Failures and writes\<close>

lemma deny_rejected:
  "holds (\<lambda>x. rejected (fst x) \<longrightarrow> snd x = d) (denySessionRequest h g userId rid reason d)"
  unfolding denySessionRequest_def Let_def
  apply (intro holds_intros)
  apply (simp_all add: holds_def rejected_def)
  done

lemma accept_rejected:
  "holds (\<lambda>x. rejected (fst x) \<longrightarrow> snd x = d \<or>
       (\<exists>requestId. rid = Some requestId \<and>
          fst x = reply 400 False (js ''Student is already enrolled in this session'') \<and>
          snd x = set_request_status requestId Accepted (now h) d))
     (acceptSessionRequest h g userId rid d)"
  unfolding acceptSessionRequest_def Let_def
  apply (intro holds_intros)
  apply (simp_all add: holds_def rejected_def)
  done

lemma unenroll_rejected:
  "holds (\<lambda>x. rejected (fst x) \<longrightarrow> snd x = d) (unenrollFromSession h g userId sid d)"
  unfolding unenrollFromSession_def Let_def
  apply (intro holds_intros)
  apply (simp_all add: holds_def rejected_def)
  done

lemma delete_enrollment_absent:
  assumes "select_enrollment d sid u = []"
  shows "delete_enrollment sid u d = d"
proof -
  have "filter P xs = [] \<Longrightarrow> filter (\<lambda>x. \<not> P x) xs = xs" for P and xs :: "attendee list"
    by (induction xs) (auto split: if_splits)
  from this [of "\<lambda>a. sa_session_id a = sid \<and> sa_user_id a = u" "session_attendees d"] assms
  show ?thesis by (simp add: delete_enrollment_def select_enrollment_def)
qed

lemma remove_rejected:
  "holds (\<lambda>x. rejected (fst x) \<longrightarrow> snd x = d)
     (removeStudentFromSession h g userId sid studentId d)"
  unfolding removeStudentFromSession_def Let_def
  apply (intro holds_intros)
  apply (simp_all add: holds_def rejected_def delete_enrollment_absent)
  done

lemma delete_rejected:
  "holds (\<lambda>x. rejected (fst x) \<longrightarrow> snd x = d) (deleteSession h g userId sid d)"
  unfolding deleteSession_def Let_def
  apply (intro holds_intros)
  apply (simp_all add: holds_def rejected_def)
  done

lemma send_rejected:
  "holds (\<lambda>x. rejected (fst x) \<longrightarrow>
       sessions (snd x) = sessions d \<and> session_attendees (snd x) = session_attendees d \<and>
       (snd x = d \<or>
        (\<exists>uid sid q others.
           userId = Some uid \<and> sessionId b = Some sid \<and>
           [r \<leftarrow> session_join_requests d.
              sjr_session_id r = sid \<and> sjr_requester_user_id r = uid] = q # others \<and>
           sjr_status q = Denied \<and>
           (fst x = reply 400 False (js ''You are already enrolled in this session'') \<or>
            fst x = reply 404 False (js ''Student not found'')))))
     (sendSessionRequest h g userId b d)"
  unfolding sendSessionRequest_def Let_def
  apply (intro holds_intros)
  apply (simp_all add: holds_def rejected_def)
  apply (auto simp: prims falsy_id_def split: option.splits intro: request_status.exhaust)
  done

text \<open>
  C3, as stated, fails.  On a store where student 20 is enrolled in session 5 and also has
  a pending request for it, \<open>acceptSessionRequest\<close> answers 400 after it has marked the
  request accepted; where the student's earlier request was denied,
  \<open>sendSessionRequest\<close> answers 400 after it has deleted that request.
\<close>

theorem failure_without_write_counterexample:
  "rejected (fst (acceptSessionRequest ex_host None (Some 10) (Some 40)
                    (ex_db [ex_request 40 20 Pending] [20])))
   \<and> session_join_requests (snd (acceptSessionRequest ex_host None (Some 10) (Some 40)
                    (ex_db [ex_request 40 20 Pending] [20])))
       \<noteq> session_join_requests (ex_db [ex_request 40 20 Pending] [20])
   \<and> rejected (fst (sendSessionRequest ex_host None (Some 20)
                    \<lparr>sessionId = Some 5, tutorId = Some ex_ten, message = None\<rparr>
                    (ex_db [ex_request 40 20 Denied] [20])))
   \<and> session_join_requests (snd (sendSessionRequest ex_host None (Some 20)
                    \<lparr>sessionId = Some 5, tutorId = Some ex_ten, message = None\<rparr>
                    (ex_db [ex_request 40 20 Denied] [20])))
       \<noteq> session_join_requests (ex_db [ex_request 40 20 Denied] [20])"
proof -
  have a: "acceptSessionRequest ex_host None (Some 10) (Some 40)
             (ex_db [ex_request 40 20 Pending] [20])
      = (reply 400 False (js ''Student is already enrolled in this session''),
         set_request_status 40 Accepted (now ex_host) (ex_db [ex_request 40 20 Pending] [20]))"
    by (simp add: acceptSessionRequest_def falsy_id_def ex_select_request enrolled_count_def
          select_enrollment_def ex_fields Let_def)
  have s: "sendSessionRequest ex_host None (Some 20)
             \<lparr>sessionId = Some 5, tutorId = Some ex_ten, message = None\<rparr>
             (ex_db [ex_request 40 20 Denied] [20])
      = (reply 400 False (js ''You are already enrolled in this session''),
         (ex_db [ex_request 40 20 Denied] [20])\<lparr>session_join_requests := []\<rparr>)"
    by (simp add: sendSessionRequest_def falsy_id_def ex_select_session enrolled_count_def
          select_enrollment_def ex_fields Let_def)
  show ?thesis
    unfolding a s
    by (simp add: rejected_def set_request_status_def ex_fields ex_request_def)
qed

text \<open>
  C3, amended.  Whatever the gateway does, a failure answer other than the 500 of the
  \<open>catch\<close> block leaves the store exactly as it was for \<open>denySessionRequest\<close>,
  \<open>unenrollFromSession\<close>, \<open>removeStudentFromSession\<close> and \<open>deleteSession\<close>;
  for \<open>acceptSessionRequest\<close> too, except that the answer "Student is already enrolled in
  this session" is given after the request has been marked accepted (and nothing else
  written); and for \<open>sendSessionRequest\<close> it leaves sessions and enrolments as they were,
  and the whole store as it was unless the student's earlier request for the session was
  a denied one and the answer is "You are already enrolled in this session" or "Student
  not found".
\<close>

theorem business_failures_write_nothing_with_two_exceptions:
  "(\<forall>r d'. sendSessionRequest h g userId b d = (r, d') \<and> rejected r \<longrightarrow>
      sessions d' = sessions d \<and> session_attendees d' = session_attendees d \<and>
      (d' = d \<or>
       (\<exists>uid sid q others.
          userId = Some uid \<and> sessionId b = Some sid \<and>
          [q \<leftarrow> session_join_requests d.
             sjr_session_id q = sid \<and> sjr_requester_user_id q = uid] = q # others \<and>
          sjr_status q = Denied \<and>
          (r = reply 400 False (js ''You are already enrolled in this session'') \<or>
           r = reply 404 False (js ''Student not found''))))) \<and>
   (\<forall>r d'. acceptSessionRequest h g userId rid d = (r, d') \<and> rejected r \<longrightarrow>
      d' = d \<or>
      (\<exists>requestId. rid = Some requestId \<and>
         r = reply 400 False (js ''Student is already enrolled in this session'') \<and>
         d' = set_request_status requestId Accepted (now h) d)) \<and>
   (\<forall>r d'. denySessionRequest h g userId rid reason d = (r, d') \<and> rejected r \<longrightarrow> d' = d) \<and>
   (\<forall>r d'. unenrollFromSession h g userId sid d = (r, d') \<and> rejected r \<longrightarrow> d' = d) \<and>
   (\<forall>r d'. removeStudentFromSession h g userId sid studentId d = (r, d') \<and> rejected r
      \<longrightarrow> d' = d) \<and>
   (\<forall>r d'. deleteSession h g userId sid d = (r, d') \<and> rejected r \<longrightarrow> d' = d)"
proof -
  have 1: "sessions d' = sessions d \<and> session_attendees d' = session_attendees d \<and>
      (d' = d \<or>
       (\<exists>uid sid q others.
          userId = Some uid \<and> sessionId b = Some sid \<and>
          [q \<leftarrow> session_join_requests d.
             sjr_session_id q = sid \<and> sjr_requester_user_id q = uid] = q # others \<and>
          sjr_status q = Denied \<and>
          (r = reply 400 False (js ''You are already enrolled in this session'') \<or>
           r = reply 404 False (js ''Student not found''))))"
    if "sendSessionRequest h g userId b d = (r, d') \<and> rejected r" for r d'
    using that send_rejected [where d = d and b = b and userId = userId and h = h and g = g]
    by (simp add: holds_def)
  have 2: "d' = d \<or>
      (\<exists>requestId. rid = Some requestId \<and>
         r = reply 400 False (js ''Student is already enrolled in this session'') \<and>
         d' = set_request_status requestId Accepted (now h) d)"
    if "acceptSessionRequest h g userId rid d = (r, d') \<and> rejected r" for r d'
    using that accept_rejected [where d = d and rid = rid and userId = userId and h = h and g = g]
    by (simp add: holds_def)
  have 3: "d' = d"
    if "denySessionRequest h g userId rid reason d = (r, d') \<and> rejected r" for r d'
    using that deny_rejected [where d = d and rid = rid and userId = userId and h = h and g = g
      and reason = reason]
    by (simp add: holds_def)
  have 4: "d' = d"
    if "unenrollFromSession h g userId sid d = (r, d') \<and> rejected r" for r d'
    using that unenroll_rejected [where d = d and sid = sid and userId = userId and h = h
      and g = g]
    by (simp add: holds_def)
  have 5: "d' = d"
    if "removeStudentFromSession h g userId sid studentId d = (r, d') \<and> rejected r" for r d'
    using that remove_rejected [where d = d and sid = sid and userId = userId and h = h
      and g = g and studentId = studentId]
    by (simp add: holds_def)
  have 6: "d' = d"
    if "deleteSession h g userId sid d = (r, d') \<and> rejected r" for r d'
    using that delete_rejected [where d = d and sid = sid and userId = userId and h = h
      and g = g]
    by (simp add: holds_def)
  show ?thesis
    apply (intro conjI allI impI)
    subgoal for r d' using 1 [of r d'] by blast
    subgoal for r d' using 1 [of r d'] by blast
    subgoal for r d' using 1 [of r d'] by blast
    subgoal for r d' using 2 [of r d'] by blast
    subgoal for r d' using 3 [of r d'] by blast
    subgoal for r d' using 4 [of r d'] by blast
    subgoal for r d' using 5 [of r d'] by blast
    subgoal for r d' using 6 [of r d'] by blast
    done
qed

theorem business_failures_write_nothing_with_two_exceptions_witness:
  "rejected (fst (acceptSessionRequest ex_host None (Some 10) (Some 40)
                    (ex_db [ex_request 40 20 Pending] [30, 30])))
   \<and> snd (acceptSessionRequest ex_host None (Some 10) (Some 40)
                    (ex_db [ex_request 40 20 Pending] [30, 30]))
       = ex_db [ex_request 40 20 Pending] [30, 30]"
proof -
  let ?d = "ex_db [ex_request 40 20 Pending] [30, 30]"
  let ?X = "acceptSessionRequest ex_host None (Some 10) (Some 40) ?d"
  have a: "fst ?X = reply 400 False
      (js ''This session is already full. Cannot accept more students.'')"
    by (simp add: acceptSessionRequest_def falsy_id_def ex_select_request enrolled_count_def
          select_enrollment_def ex_fields Let_def)
  then have r: "rejected (fst ?X)" by (simp add: rejected_def)
  have ne: "reply 400 False (js ''This session is already full. Cannot accept more students.'')
      \<noteq> reply 400 False (js ''Student is already enrolled in this session'')"
    by (simp add: reply_def js_def)
  have p: "?X = (fst ?X, snd ?X) \<and> rejected (fst ?X)" using r by simp
  from business_failures_write_nothing_with_two_exceptions
         [where h = ex_host and g = None and userId = "Some 10" and rid = "Some 40" and d = "?d",
          THEN conjunct2, THEN conjunct1, rule_format, OF p]
  have "snd ?X = ?d \<or> fst ?X = reply 400 False (js ''Student is already enrolled in this session'')"
    by blast
  with a ne have "snd ?X = ?d" by simp
  with r show ?thesis by simp
qed

section \<open>Creating a session\<close>

lemma create_outcomes:
  "holds (\<lambda>x.
      (\<not> succeeded (fst x) \<and>
       sessions (snd x) = sessions d \<and> session_courses (snd x) = session_courses d) \<or>
      (\<exists>s. sessions (snd x) = sessions d @ [s] \<and> s_session_id s = next_session_id d \<and>
           session_courses (snd x) = session_courses d \<and>
           fst x = reply 500 False (js ''Failed to create session'')) \<or>
      (\<exists>s ids. courseIds b = Some ids \<and>
           sessions (snd x) = sessions d @ [s] \<and> s_session_id s = next_session_id d \<and>
           session_courses (snd x) =
             session_courses d @ map (\<lambda>courseId. (next_session_id d, courseId)) ids \<and>
           succeeded (fst x)))
     (createSession h g userId b d)"
  unfolding createSession_def Let_def
  apply (intro holds_intros)
  apply (simp_all add: holds_def missing_required_def)
  apply auto
  done

lemma create_unrejected:
  "holds (\<lambda>x. http_status (fst x) \<noteq> 500) (createSession h None userId b d)"
  unfolding createSession_def Let_def
  apply (simp only: pool_query_None)
  apply (intro holds_intros)
  apply (simp_all add: holds_def)
  done

text \<open>
  C6, as stated, fails.  The payload is valid (with a gateway that rejects nothing the call
  succeeds), but when the gateway rejects the fourth statement, the insert into
  \<open>session_courses\<close>, the call answers 500 and leaves session 6 in \<open>sessions\<close> without any
  \<open>session_courses\<close> row.
\<close>

theorem createSession_atomic_counterexample:
  "succeeded (fst (createSession ex_host None (Some 10) ex_body (ex_db [] [])))
   \<and> fst (createSession ex_host (Some 3) (Some 10) ex_body (ex_db [] []))
       = reply 500 False (js ''Failed to create session'')
   \<and> map s_session_id (sessions (snd (createSession ex_host (Some 3) (Some 10) ex_body
                                          (ex_db [] [])))) = [5, 6]
   \<and> session_courses (snd (createSession ex_host (Some 3) (Some 10) ex_body (ex_db [] [])))
       = [(5, 7)]"
proof -
  have t: "[u \<leftarrow> users (ex_db [] []). u_user_id u = 10 \<and> u_role u = Tutor] \<noteq> []"
    by (simp add: ex_fields)
  have c: "select_course_check (ex_db [] []) 10 [7] = [(7, js ''Intro'', js ''101'', js ''CSC'')]"
    by (simp add: select_course_check_def ex_db_def)
  have p: "parse_date ex_host (js ''2030-01-01T10:00:00'') = Some 2000"
    "parse_date ex_host (js ''2030-01-01T11:00:00'') = Some 3000" "now ex_host = 1000"
    by (simp_all add: ex_host_def js_def)
  have v: "\<not> missing_required ex_body" "title ex_body = Some (js ''Algebra'')"
    "sessionType ex_body = Some (js ''one_on_one'')" "courseIds ex_body = Some [7]"
    "startTime ex_body = Some (js ''2030-01-01T10:00:00'')"
    "endTime ex_body = Some (js ''2030-01-01T11:00:00'')"
    "capacity ex_body = Some (VNum (NFinite False 5 1))"
    "parseInt (VNum (NFinite False 5 1)) = Some 5"
    by (simp_all add: ex_body_def missing_required_def falsy_str_def falsy_value_def parse_defs)
  have l: "\<not> 150 < length (trim (js ''Algebra''))"
    by (simp add: trim_def js_def js_whitespace_def)
  have 1: "succeeded (fst (createSession ex_host None (Some 10) ex_body (ex_db [] [])))"
    using t by (simp add: createSession_def falsy_id_def v c p l Let_def)
  have e: "Some (3::nat) = Some (Suc (Suc (Suc 0)))" by simp
  have n: "next_session_id (ex_db [] []) = 6" "\<not> falsy_str (locationDetails ex_body)"
    by (simp_all add: ex_db_def ex_body_def falsy_str_def js_def)
  have 2: "createSession ex_host (Some 3) (Some 10) ex_body (ex_db [] [])
     = (reply 500 False (js ''Failed to create session''),
        (ex_db [] [])\<lparr>sessions := sessions (ex_db [] []) @
            [\<lparr>s_session_id = 6, s_tutor_id = 10, s_title = trim (js ''Algebra''),
              s_start_time = replace_first 84 [32] (js ''2030-01-01T10:00:00''),
              s_end_time = replace_first 84 [32] (js ''2030-01-01T11:00:00''),
              s_session_type = js ''one_on_one'', s_capacity = 1,
              s_location_details = locationDetails ex_body,
              s_status = js ''scheduled''\<rparr>],
          next_session_id := 7\<rparr>)"
    unfolding e using t
    by (simp add: createSession_def falsy_id_def v c p l Let_def pool_query_Suc pool_query_def
          ex_db_fields n)
  show ?thesis
    unfolding 2 using 1 by (simp add: ex_fields)
qed

text \<open>
  C6, amended.  \<open>createSession\<close> issues the insert into \<open>sessions\<close> and the insert into
  \<open>session_courses\<close> as two statements, outside any transaction.  Every call ends in one
  of three ways: the call has failed and neither table has changed; or the new session row is there without
  course associations and the answer is the 500 of the \<open>catch\<close> block; or the new
  session row and one \<open>session_courses\<close> row per course identifier are there and the call
  has succeeded.  So course associations are never stored without their session row,
  and when the gateway rejects no statement the 500 cannot occur: then the session row
  and all its course associations are stored together or not at all.
\<close>

theorem createSession_two_inserts:
  "(\<forall>r d'. createSession h g userId b d = (r, d') \<longrightarrow>
      (\<not> succeeded r \<and> sessions d' = sessions d \<and> session_courses d' = session_courses d) \<or>
      (\<exists>s. sessions d' = sessions d @ [s] \<and> s_session_id s = next_session_id d \<and>
           session_courses d' = session_courses d \<and>
           r = reply 500 False (js ''Failed to create session'')) \<or>
      (\<exists>s ids. courseIds b = Some ids \<and>
           sessions d' = sessions d @ [s] \<and> s_session_id s = next_session_id d \<and>
           session_courses d' =
             session_courses d @ map (\<lambda>courseId. (next_session_id d, courseId)) ids \<and>
           succeeded r)) \<and>
   http_status (fst (createSession h None userId b d)) \<noteq> 500"
  using create_outcomes [of d b h g userId] create_unrejected [of h userId b d]
  by (auto simp: holds_def)

theorem createSession_two_inserts_witness:
  "succeeded (fst (createSession ex_host None (Some 10) ex_body (ex_db [] [])))
   \<and> map s_session_id (sessions (snd (createSession ex_host None (Some 10) ex_body
                                          (ex_db [] [])))) = [5, 6]
   \<and> session_courses (snd (createSession ex_host None (Some 10) ex_body (ex_db [] [])))
       = [(5, 7), (6, 7)]"
proof -
  let ?X = "createSession ex_host None (Some 10) ex_body (ex_db [] [])"
  have t: "[u \<leftarrow> users (ex_db [] []). u_user_id u = 10 \<and> u_role u = Tutor] \<noteq> []"
    by (simp add: ex_fields)
  have c: "select_course_check (ex_db [] []) 10 [7] = [(7, js ''Intro'', js ''101'', js ''CSC'')]"
    by (simp add: select_course_check_def ex_db_def)
  have p: "parse_date ex_host (js ''2030-01-01T10:00:00'') = Some 2000"
    "parse_date ex_host (js ''2030-01-01T11:00:00'') = Some 3000" "now ex_host = 1000"
    by (simp_all add: ex_host_def js_def)
  have v: "\<not> missing_required ex_body" "title ex_body = Some (js ''Algebra'')"
    "sessionType ex_body = Some (js ''one_on_one'')" "courseIds ex_body = Some [7]"
    "startTime ex_body = Some (js ''2030-01-01T10:00:00'')"
    "endTime ex_body = Some (js ''2030-01-01T11:00:00'')"
    "capacity ex_body = Some (VNum (NFinite False 5 1))"
    "parseInt (VNum (NFinite False 5 1)) = Some 5"
    by (simp_all add: ex_body_def missing_required_def falsy_str_def falsy_value_def parse_defs)
  have l: "\<not> 150 < length (trim (js ''Algebra''))"
    by (simp add: trim_def js_def js_whitespace_def)
  have 1: "succeeded (fst ?X)"
    using t by (simp add: createSession_def falsy_id_def v c p l Let_def)
  have n: "next_session_id (ex_db [] []) = 6" by (simp add: ex_db_def)
  from createSession_two_inserts [where h = ex_host and g = None and userId = "Some 10"
      and b = ex_body and d = "ex_db [] []", THEN conjunct1, rule_format, OF surjective_pairing] 1
  have "map s_session_id (sessions (snd ?X)) = [5, 6] \<and>
      session_courses (snd ?X) = [(5, 7), (6, 7)]"
    by (auto simp: ex_fields v n)
  with 1 show ?thesis by simp
qed


subsection \<open>Validation\<close>


lemma select_course_check_Nil [simp]: "select_course_check d uid [] = []"
  by (simp add: select_course_check_def)








section \<open>Capacity\<close>

lemma capacity_step_same:
  "sessions d' = sessions d \<Longrightarrow> session_attendees d' = session_attendees d \<Longrightarrow> capacity_step d d'"
  unfolding capacity_step_def
  by (rule disjI1, rule exI [of _ "\<lambda>_. True"], rule exI [of _ "\<lambda>_. True"]) simp

lemma capacity_step_delete:
  "sessions d' = filter Q (sessions d) \<Longrightarrow> session_attendees d' = filter P (session_attendees d)
     \<Longrightarrow> capacity_step d d'"
  unfolding capacity_step_def by blast

lemma length_filter_filter: "length (filter A (filter P xs)) \<le> length (filter A xs)"
  by (induction xs) (simp_all add: le_SucI)

lemma capacity_step_keeps:
  assumes "distinct (map s_session_id (sessions d))" and "capacity_step d d'"
    and "within_capacity d sid"
  shows "within_capacity d' sid \<and> distinct (map s_session_id (sessions d'))"
  using assms(2) unfolding capacity_step_def
proof (elim disjE exE conjE)
  fix P Q
  assume s: "sessions d' = filter Q (sessions d)"
    and a: "session_attendees d' = filter P (session_attendees d)"
  have "length [x \<leftarrow> filter P (session_attendees d). sa_session_id x = sid]
      \<le> length [x \<leftarrow> session_attendees d. sa_session_id x = sid]"
    by (rule length_filter_filter)
  then have "enrolled_count d' sid \<le> enrolled_count d sid"
    by (simp add: enrolled_count_def a)
  with assms(3) have "within_capacity d' sid"
    by (auto simp: within_capacity_def s list_all_iff)
  moreover have "distinct (map s_session_id (sessions d'))"
    using assms(1) by (simp add: s distinct_map_filter)
  ultimately show ?thesis by simp
next
  fix a s
  assume s: "sessions d' = sessions d"
    and a: "session_attendees d' = session_attendees d @ [a]"
    and m: "s \<in> set (sessions d)" "s_session_id s = sa_session_id a"
    and c: "enrolled_count d (sa_session_id a) < s_capacity s"
  have "enrolled_count d' sid \<le> s_capacity t" if t: "t \<in> set (sessions d)" "s_session_id t = sid"
    for t
  proof (cases "sa_session_id a = sid")
    case True
    with assms(1) m t have "t = s"
      by (metis distinct_map inj_onD)
    with c True show ?thesis by (simp add: enrolled_count_def a)
  next
    case False
    with assms(3) t show ?thesis
      by (auto simp: within_capacity_def list_all_iff enrolled_count_def a)
  qed
  then show ?thesis
    using assms(1) by (auto simp: within_capacity_def list_all_iff s)
qed

lemma send_step:
  "holds (\<lambda>x. sessions (snd x) = sessions d \<and> session_attendees (snd x) = session_attendees d)
     (sendSessionRequest h g userId b d)"
  unfolding sendSessionRequest_def Let_def
  apply (intro holds_intros)
  apply (simp_all add: holds_def prims)
  done

lemma deny_step:
  "holds (\<lambda>x. sessions (snd x) = sessions d \<and> session_attendees (snd x) = session_attendees d)
     (denySessionRequest h g userId rid reason d)"
  unfolding denySessionRequest_def Let_def
  apply (intro holds_intros)
  apply (simp_all add: holds_def prims)
  done

lemma unenroll_step:
  "holds (\<lambda>x. sessions (snd x) = sessions d \<and>
        (session_attendees (snd x) = session_attendees d \<or>
         session_attendees (snd x) = session_attendees (delete_enrollment sid (the userId) d)))
     (unenrollFromSession h g userId sid d)"
  unfolding unenrollFromSession_def Let_def
  apply (intro holds_intros)
  apply (simp_all add: holds_def prims delete_enrollment_def downgrade_accepted_def)
  done

lemma remove_step:
  "holds (\<lambda>x. sessions (snd x) = sessions d \<and>
        (session_attendees (snd x) = session_attendees d \<or>
         session_attendees (snd x) = session_attendees (delete_enrollment sid studentId d)))
     (removeStudentFromSession h g userId sid studentId d)"
  unfolding removeStudentFromSession_def Let_def
  apply (intro holds_intros)
  apply (simp_all add: holds_def prims delete_enrollment_def downgrade_accepted_def)
  done

lemma accept_step:
  "holds (\<lambda>x. sessions (snd x) = sessions d \<and>
        (session_attendees (snd x) = session_attendees d \<or>
         (\<exists>request session student rest.
            select_request d (the rid) = (request, session, student) # rest \<and>
            enrolled_count d (sjr_session_id request) < s_capacity session \<and>
            session_attendees (snd x) = session_attendees d @
              [\<lparr>sa_session_id = sjr_session_id request, sa_user_id = u_user_id student\<rparr>])))
     (acceptSessionRequest h g userId rid d)"
  unfolding acceptSessionRequest_def Let_def
  apply (intro holds_intros)
  apply (simp_all add: holds_def prims)
  done

lemma pending_loop_kept:
  "for_each (deny_pending h uid session) xs g d = Finished g' d' \<Longrightarrow> untouched d d'"
  using pending_loop_untouched [of d h uid session xs g] by (simp add: state_of_def)

lemma enrolled_loop_kept:
  "for_each (notify_enrolled h uid session tn) xs g d = Finished g' d' \<Longrightarrow> untouched d d'"
  using enrolled_loop_untouched [of d h uid session tn xs g] by (simp add: state_of_def)

lemma delete_step:
  "holds (\<lambda>x. (sessions (snd x) = sessions d \<or>
               sessions (snd x) = [s \<leftarrow> sessions d. s_session_id s \<noteq> sid]) \<and>
              (session_attendees (snd x) = session_attendees d \<or>
               session_attendees (snd x) = [sa \<leftarrow> session_attendees d. sa_session_id sa \<noteq> sid]))
     (deleteSession h g userId sid d)"
  unfolding deleteSession_def Let_def
  apply (intro holds_intros)
  apply (simp_all add: holds_def)
  apply (auto dest!: pending_loop_Thrown pending_loop_kept enrolled_loop_Thrown
      enrolled_loop_kept simp: untouched_def undeleted_def)
  done


lemma perform_step: "capacity_step d (snd (perform h g c d))"
proof (cases c)
  case (CreateRequest userId b)
  with send_step [of d h g userId b] show ?thesis
    by (simp add: perform_def holds_def capacity_step_same)
next
  case (Accept userId rid)
  from accept_step [of d rid h g userId]
  have "capacity_step d (snd (acceptSessionRequest h g userId rid d))"
    unfolding holds_def
  proof (elim conjE disjE exE)
    assume "sessions (snd (acceptSessionRequest h g userId rid d)) = sessions d"
      "session_attendees (snd (acceptSessionRequest h g userId rid d)) = session_attendees d"
    then show ?thesis by (rule capacity_step_same)
  next
    fix request session student rest
    assume s: "sessions (snd (acceptSessionRequest h g userId rid d)) = sessions d"
      and f: "select_request d (the rid) = (request, session, student) # rest"
      and c: "enrolled_count d (sjr_session_id request) < s_capacity session"
      and a: "session_attendees (snd (acceptSessionRequest h g userId rid d)) =
          session_attendees d @
          [\<lparr>sa_session_id = sjr_session_id request, sa_user_id = u_user_id student\<rparr>]"
    from select_request_hd [OF f]
    have "session \<in> set (sessions d)" "s_session_id session = sjr_session_id request"
      by simp_all
    with s a c show ?thesis
      unfolding capacity_step_def
      by (intro disjI2 exI [of _ session]
            exI [of _ "\<lparr>sa_session_id = sjr_session_id request, sa_user_id = u_user_id student\<rparr>"])
         simp
  qed
  with Accept show ?thesis by (simp add: perform_def)
next
  case (Deny userId rid reason)
  with deny_step [of d h g userId rid reason] show ?thesis
    by (simp add: perform_def holds_def capacity_step_same)
next
  case (Unenroll userId sid)
  with unenroll_step [of d sid userId h g] show ?thesis
    by (auto simp: perform_def holds_def delete_enrollment_def
        intro: capacity_step_same capacity_step_delete [where Q = "\<lambda>_. True"])
next
  case (RemoveStudent userId sid studentId)
  with remove_step [of d sid studentId h g userId] show ?thesis
    by (auto simp: perform_def holds_def delete_enrollment_def
        intro: capacity_step_same capacity_step_delete [where Q = "\<lambda>_. True"])
next
  case (DeleteSession userId sid)
  have t: "xs = filter (\<lambda>_. True) xs" for xs :: "'a list" by simp
  from DeleteSession delete_step [of d sid h g userId] show ?thesis
    by (auto simp: perform_def holds_def
        intro: capacity_step_same capacity_step_delete [where Q = "\<lambda>_. True"]
          capacity_step_delete [where P = "\<lambda>_. True"] capacity_step_delete)
qed

lemma run_keeps:
  "distinct (map s_session_id (sessions d)) \<Longrightarrow> within_capacity d sid
     \<Longrightarrow> within_capacity (run h calls d) sid"
proof (induction calls arbitrary: d)
  case Nil
  then show ?case by simp
next
  case (Cons c calls)
  obtain g k where c: "c = (g, k)" by (cases c)
  from capacity_step_keeps [OF Cons.prems(1) perform_step Cons.prems(2), of h g k]
  show ?case by (simp add: c Cons.IH)
qed

lemma accept_full:
  assumes "select_request d rid = (request, session, student) # rest"
    and "s_capacity session \<le> enrolled_count d (sjr_session_id request)"
  shows "holds (\<lambda>x. \<not> succeeded (fst x) \<and> snd x = d)
           (acceptSessionRequest h g userId (Some rid) d)"
  unfolding acceptSessionRequest_def Let_def
  apply (intro holds_intros)
  using assms
  apply (simp_all add: holds_def)
  done

lemma send_full:
  assumes "sessionId b = Some sid" and "select_session d sid = session # rest"
    and "s_capacity session \<le> enrolled_count d sid"
  shows "holds (\<lambda>x. \<not> succeeded (fst x) \<and> snd x = d) (sendSessionRequest h g userId b d)"
proof -
  have "s_session_id session = sid"
    using assms(2) by (metis (mono_tags, lifting) filter_eq_ConsD select_session_def)
  with assms show ?thesis
    unfolding sendSessionRequest_def Let_def
    apply (intro holds_intros)
    apply (simp_all add: holds_def)
    done
qed

lemma send_full_answer:
  assumes "userId = Some student" "student \<noteq> 0" "g \<noteq> Some 0"
    and "sessionId b = Some sid" and "select_session d sid = session # rest"
    and "sid \<noteq> 0"
    and "tutorId b = Some raw" "parseInt raw = Some (int (s_tutor_id session))"
    and "s_tutor_id session \<noteq> 0" and "student \<noteq> s_tutor_id session"
    and "s_capacity session \<le> enrolled_count d sid"
  shows "sendSessionRequest h g userId b d =
           (reply 400 False (js ''This session is already full''), d)"
proof -
  have "s_session_id session = sid"
    using assms(5) by (metis (mono_tags, lifting) filter_eq_ConsD select_session_def)
  moreover have "\<not> falsy_value (tutorId b)"
    using falsy_value_parseInt [of raw] assms(7,8,9) by auto
  ultimately show ?thesis
    using assms by (simp add: sendSessionRequest_def falsy_id_def Let_def pool_query_const)
qed


text \<open>
  C1.  On a store whose sessions have pairwise different identifiers (\<open>session_id\<close> is
  the primary key), take any session whose number of \<open>session_attendees\<close> rows is at most
  its capacity, and any run of calls to \<open>sendSessionRequest\<close>, \<open>acceptSessionRequest\<close>,
  \<open>denySessionRequest\<close>, \<open>unenrollFromSession\<close>, \<open>removeStudentFromSession\<close> and
  \<open>deleteSession\<close>, by any callers, with any arguments, served one after the other, each
  stopped by the gateway wherever it may be: after the first \<open>n\<close> calls, for every \<open>n\<close>,
  the number of \<open>session_attendees\<close> rows of that session is at most its capacity.  In
  particular: when the session of a request has as many \<open>session_attendees\<close> rows as its
  capacity, or more, \<open>acceptSessionRequest\<close> fails and writes nothing, and the failure is
  the 400 "already full" whenever the caller is the tutor of a pending request and the
  lookup is not rejected; and when a session is full, \<open>sendSessionRequest\<close> fails and
  writes nothing, and the failure is the 400 "already full" for a student who names the
  session and a \<open>tutorId\<close> from which \<open>parseInt\<close> reads its tutor.
\<close>

theorem enrolment_stays_within_capacity:
  assumes "distinct (map s_session_id (sessions d))" and "within_capacity d sid"
  shows "within_capacity (run h (take n calls) d) sid
    \<and> (select_request e rid = (request, session, student) # rest \<and>
       s_capacity session \<le> enrolled_count e (sjr_session_id request) \<longrightarrow>
         \<not> succeeded (fst (acceptSessionRequest h g userId (Some rid) e)) \<and>
         snd (acceptSessionRequest h g userId (Some rid) e) = e \<and>
         (userId = Some (sjr_tutor_user_id request) \<and> sjr_tutor_user_id request \<noteq> 0 \<and>
          sjr_status request = Pending \<and> g \<noteq> Some 0 \<longrightarrow>
            fst (acceptSessionRequest h g userId (Some rid) e) =
              reply 400 False (js ''This session is already full. Cannot accept more students.'')))
    \<and> (sessionId b = Some sid' \<and> select_session e sid' = session' # rest' \<and>
       s_capacity session' \<le> enrolled_count e sid' \<longrightarrow>
         \<not> succeeded (fst (sendSessionRequest h g' userId' b e)) \<and>
         snd (sendSessionRequest h g' userId' b e) = e \<and>
         (userId' = Some student' \<and> student' \<noteq> 0 \<and> g' \<noteq> Some 0 \<and> sid' \<noteq> 0 \<and>
          tutorId b = Some raw \<and> parseInt raw = Some (int (s_tutor_id session')) \<and>
          s_tutor_id session' \<noteq> 0 \<and> student' \<noteq> s_tutor_id session' \<longrightarrow>
            fst (sendSessionRequest h g' userId' b e) =
              reply 400 False (js ''This session is already full'')))"
proof -
  have 1: "within_capacity (run h (take n calls) d) sid"
    using assms by (rule run_keeps)
  have 2: "\<not> succeeded (fst (acceptSessionRequest h g userId (Some rid) e)) \<and>
         snd (acceptSessionRequest h g userId (Some rid) e) = e"
    if "select_request e rid = (request, session, student) # rest"
      "s_capacity session \<le> enrolled_count e (sjr_session_id request)"
    using accept_full [OF that, of h g userId] by (simp add: holds_def)
  have 3: "fst (acceptSessionRequest h g userId (Some rid) e) =
              reply 400 False (js ''This session is already full. Cannot accept more students.'')"
    if "select_request e rid = (request, session, student) # rest"
      "s_capacity session \<le> enrolled_count e (sjr_session_id request)"
      "userId = Some (sjr_tutor_user_id request)" "sjr_tutor_user_id request \<noteq> 0"
      "sjr_status request = Pending" "g \<noteq> Some 0"
    using accept_first_checks [OF that(3,4,6,1), of h] that(2,5) by simp
  have 4: "\<not> succeeded (fst (sendSessionRequest h g' userId' b e)) \<and>
         snd (sendSessionRequest h g' userId' b e) = e"
    if "sessionId b = Some sid'" "select_session e sid' = session' # rest'"
       "s_capacity session' \<le> enrolled_count e sid'"
    using send_full [OF that, of h g' userId'] by (simp add: holds_def)
  have 5: "fst (sendSessionRequest h g' userId' b e) =
              reply 400 False (js ''This session is already full'')"
    if "sessionId b = Some sid'" "select_session e sid' = session' # rest'"
       "s_capacity session' \<le> enrolled_count e sid'"
       "userId' = Some student'" "student' \<noteq> 0" "g' \<noteq> Some 0" "sid' \<noteq> 0"
       "tutorId b = Some raw" "parseInt raw = Some (int (s_tutor_id session'))"
       "s_tutor_id session' \<noteq> 0" "student' \<noteq> s_tutor_id session'"
    using send_full_answer [OF that(4,5,6,1,2,7,8,9,10,11,3), of h] by simp
  from 1 2 3 4 5 show ?thesis by blast
qed

theorem enrolment_stays_within_capacity_witness:
  "succeeded (fst (perform ex_host None (Accept (Some 10) (Some 40))
                     (ex_db [ex_request 40 20 Pending] [30])))
   \<and> enrolled_count (ex_db [ex_request 40 20 Pending] [30]) 5 = 1
   \<and> enrolled_count (run ex_host [(None, Accept (Some 10) (Some 40))]
                        (ex_db [ex_request 40 20 Pending] [30])) 5 \<le> s_capacity ex_session
   \<and> s_capacity ex_session = enrolled_count (ex_db [ex_request 40 20 Pending] [30, 30]) 5
   \<and> fst (acceptSessionRequest ex_host None (Some 10) (Some 40)
             (ex_db [ex_request 40 20 Pending] [30, 30]))
       = reply 400 False (js ''This session is already full. Cannot accept more students.'')
   \<and> fst (sendSessionRequest ex_host None (Some 20)
             \<lparr>sessionId = Some 5, tutorId = Some ex_ten, message = None\<rparr>
             (ex_db [ex_request 40 20 Pending] [30, 30]))
       = reply 400 False (js ''This session is already full'')"
proof -
  let ?d = "ex_db [ex_request 40 20 Pending] [30]"
  let ?e = "ex_db [ex_request 40 20 Pending] [30, 30]"
  let ?b = "\<lparr>sessionId = Some 5, tutorId = Some ex_ten, message = None\<rparr>"
  let ?X = "acceptSessionRequest ex_host None (Some 10) (Some 40) ?d"
  have s: "succeeded (fst ?X)"
    by (simp add: acceptSessionRequest_def falsy_id_def ex_select_request enrolled_count_def
          select_enrollment_def ex_fields Let_def split_def)
  have k: "sessions (snd ?X) = [ex_session]"
    using accept_step [of ?d "Some 40" ex_host None "Some 10"]
    by (simp add: holds_def ex_fields)
  have c: "enrolled_count ?d 5 = 1" "enrolled_count ?e 5 = 2"
    by (simp_all add: enrolled_count_def ex_fields)
  have i: "distinct (map s_session_id (sessions ?d))" "within_capacity ?d 5"
    by (simp_all add: within_capacity_def ex_fields c)
  have f: "s_capacity ex_session \<le> enrolled_count ?e (sjr_session_id (ex_request 40 20 Pending))"
    "s_capacity ex_session \<le> enrolled_count ?e 5"
    by (simp_all add: ex_fields c)
  note t = enrolment_stays_within_capacity [OF i, where h = ex_host and n = 1
      and calls = "[(None, Accept (Some 10) (Some 40))]" and e = ?e and rid = 40
      and request = "ex_request 40 20 Pending" and session = ex_session
      and student = "ex_user 20 Student" and rest = "[]" and g = None and userId = "Some 10"
      and b = ?b and sid' = 5 and session' = ex_session and rest' = "[]" and g' = None
      and userId' = "Some 20" and student' = 20 and raw = ex_ten]
  from t have "within_capacity (snd ?X) 5"
    by (simp add: perform_def)
  with k have 1: "enrolled_count (run ex_host [(None, Accept (Some 10) (Some 40))] ?d) 5
      \<le> s_capacity ex_session"
    by (simp add: within_capacity_def perform_def ex_fields)
  from t ex_select_request [of Pending "[30, 30]"] f(1)
  have 2: "fst (acceptSessionRequest ex_host None (Some 10) (Some 40) ?e)
       = reply 400 False (js ''This session is already full. Cannot accept more students.'')"
    by (simp add: ex_fields)
  from t ex_select_session [of "[ex_request 40 20 Pending]" "[30, 30]"] f(2)
  have 3: "fst (sendSessionRequest ex_host None (Some 20) ?b ?e)
       = reply 400 False (js ''This session is already full'')"
    by (simp add: ex_fields)
  from s 1 2 3 c show ?thesis by (simp add: perform_def ex_fields)
qed

end
